theory Spec2Isabelle
  imports Main "HOL-Library.Sublist"
begin

section \<open>Python values and library operations used by the responder\<close>

text \<open>
  The responder is the class \<open>LooplyLIA\<close> of \<^verbatim>\<open>lia_clean_final.py\<close>. A Python \<open>str\<close> is
  modelled as a \<open>string\<close> holding its UTF-8 bytes, so an emoji of the source is a short run
  of bytes written \<open>CHR 0x..\<close>. Substring search, splitting, replacing and joining act on
  bytes exactly as they act on code points. A byte below \<open>0x80\<close> is an ASCII character; a
  character outside ASCII is a run of bytes from \<open>0x80\<close> upwards.

  Every operation of the source that can raise returns a sum, \<open>Inl\<close> carrying the exception.
\<close>

datatype error = IndexError | KeyError | ValueError

definition and_then :: "error + 'a \<Rightarrow> ('a \<Rightarrow> error + 'b) \<Rightarrow> error + 'b" where
  "and_then r f = (case r of Inl e \<Rightarrow> Inl e | Inr x \<Rightarrow> f x)"

definition ascii :: "char \<Rightarrow> bool" where
  "ascii c = ((of_char c :: nat) < 128)"

text \<open>
  What a call receives from outside the program. \<open>rnd\<close> is the sequence of raw draws a
  call may consume and \<open>clock\<close> is what \<open>time.strftime('%H:%M:%S')\<close> returns during the
  call. \<open>unicode_lower\<close> stands for the case tables of the interpreter, which are not part
  of the source: for a maximal run of characters outside ASCII it gives what \<open>str.lower\<close>
  puts in its place, which may be longer or shorter, may hold ASCII letters (the Kelvin
  sign becomes \<open>k\<close>) and may depend on the text in front of the run and after it (as the
  final sigma does). Every property below holds for every such table.
\<close>

record env =
  rnd :: "nat \<Rightarrow> nat"
  clock :: string
  unicode_lower :: "string \<Rightarrow> string \<Rightarrow> string \<Rightarrow> string"

text \<open>
  The characters for which \<open>str.isspace\<close> holds, each in UTF-8: the ten of ASCII
  (\<open>U+0009\<close> to \<open>U+000D\<close>, \<open>U+001C\<close> to \<open>U+001F\<close>, the blank) and \<open>U+0085\<close>, \<open>U+00A0\<close>,
  \<open>U+1680\<close>, \<open>U+2000\<close> to \<open>U+200A\<close>, \<open>U+2028\<close>, \<open>U+2029\<close>, \<open>U+202F\<close>, \<open>U+205F\<close> and
  \<open>U+3000\<close>. \<open>space_prefix\<close> and \<open>space_suffix\<close> give the whitespace character a text starts
  or ends with, if there is one.
\<close>

definition whitespace :: "string list" where
  "whitespace =
     [[CHR 0x09], [CHR 0x0A], [CHR 0x0B], [CHR 0x0C], [CHR 0x0D],
      [CHR 0x1C], [CHR 0x1D], [CHR 0x1E], [CHR 0x1F], '' '',
      [CHR 0xC2, CHR 0x85], [CHR 0xC2, CHR 0xA0], [CHR 0xE1, CHR 0x9A, CHR 0x80],
      [CHR 0xE2, CHR 0x80, CHR 0x80], [CHR 0xE2, CHR 0x80, CHR 0x81],
      [CHR 0xE2, CHR 0x80, CHR 0x82], [CHR 0xE2, CHR 0x80, CHR 0x83],
      [CHR 0xE2, CHR 0x80, CHR 0x84], [CHR 0xE2, CHR 0x80, CHR 0x85],
      [CHR 0xE2, CHR 0x80, CHR 0x86], [CHR 0xE2, CHR 0x80, CHR 0x87],
      [CHR 0xE2, CHR 0x80, CHR 0x88], [CHR 0xE2, CHR 0x80, CHR 0x89],
      [CHR 0xE2, CHR 0x80, CHR 0x8A], [CHR 0xE2, CHR 0x80, CHR 0xA8],
      [CHR 0xE2, CHR 0x80, CHR 0xA9], [CHR 0xE2, CHR 0x80, CHR 0xAF],
      [CHR 0xE2, CHR 0x81, CHR 0x9F], [CHR 0xE3, CHR 0x80, CHR 0x80]]"

definition space_prefix :: "string \<Rightarrow> string option" where
  "space_prefix s = find (\<lambda>w. prefix w s) whitespace"

definition space_suffix :: "string \<Rightarrow> string option" where
  "space_suffix s = find (\<lambda>w. suffix w s) whitespace"

definition lower_char :: "char \<Rightarrow> char" where
  "lower_char c =
     (case map_of (zip ''ABCDEFGHIJKLMNOPQRSTUVWXYZ'' ''abcdefghijklmnopqrstuvwxyz'') c of
        Some d \<Rightarrow> d
      | None \<Rightarrow> c)"

definition upper_char :: "char \<Rightarrow> char" where
  "upper_char c =
     (case map_of (zip ''abcdefghijklmnopqrstuvwxyz'' ''ABCDEFGHIJKLMNOPQRSTUVWXYZ'') c of
        Some d \<Rightarrow> d
      | None \<Rightarrow> c)"

definition isalpha :: "char \<Rightarrow> bool" where
  "isalpha c = (c \<in> set ''ABCDEFGHIJKLMNOPQRSTUVWXYZabcdefghijklmnopqrstuvwxyz'')"

text \<open>
  \<open>s.lower()\<close>: an ASCII character becomes its ASCII lower case whatever stands around
  it; a run of characters outside ASCII becomes what the case tables give for it. The
  second argument of \<open>lower_from\<close> is the text already read.
\<close>

function lower_from :: "env \<Rightarrow> string \<Rightarrow> string \<Rightarrow> string" where
  "lower_from e seen [] = []"
| "lower_from e seen (c # cs) =
     (if ascii c then lower_char c # lower_from e (seen @ [c]) cs
      else let run = c # takeWhile (\<lambda>x. \<not> ascii x) cs;
               rest = dropWhile (\<lambda>x. \<not> ascii x) cs
           in unicode_lower e seen run rest @ lower_from e (seen @ run) rest)"
  by pat_completeness auto
termination
  by (relation "measure (\<lambda>(e, seen, s). length s)")
    (auto simp add: length_dropWhile_le less_Suc_eq_le)

definition str_lower :: "env \<Rightarrow> string \<Rightarrow> string" where
  "str_lower e s = lower_from e [] s"

text \<open>
  \<open>s.strip()\<close>: the whitespace characters at the front are removed one after the other, then
  those at the end.
\<close>

function str_lstrip :: "string \<Rightarrow> string" where
  "str_lstrip s =
     (case space_prefix s of None \<Rightarrow> s | Some w \<Rightarrow> str_lstrip (drop (length w) s))"
  by pat_completeness auto
termination
proof (relation "measure length")
  show "wf (measure length)"
    by simp
next
  fix s w
  assume "space_prefix s = Some w"
  then have "w \<in> set whitespace" and "prefix w s"
    by (auto simp add: space_prefix_def find_Some_iff)
  moreover from \<open>w \<in> set whitespace\<close> have "w \<noteq> []"
    by (auto simp add: whitespace_def)
  ultimately have "s \<noteq> []" and "0 < length w"
    by auto
  then show "(drop (length w) s, s) \<in> measure length"
    by simp
qed

function str_rstrip :: "string \<Rightarrow> string" where
  "str_rstrip s =
     (case space_suffix s of
        None \<Rightarrow> s
      | Some w \<Rightarrow> str_rstrip (take (length s - length w) s))"
  by pat_completeness auto
termination
proof (relation "measure length")
  show "wf (measure length)"
    by simp
next
  fix s w
  assume "space_suffix s = Some w"
  then have "w \<in> set whitespace" and "suffix w s"
    by (auto simp add: space_suffix_def find_Some_iff)
  moreover from \<open>w \<in> set whitespace\<close> have "w \<noteq> []"
    by (auto simp add: whitespace_def)
  ultimately have "s \<noteq> []" and "0 < length w"
    by auto
  then show "(take (length s - length w) s, s) \<in> measure length"
    by simp
qed

declare str_lstrip.simps [simp del] str_rstrip.simps [simp del]

definition str_strip :: "string \<Rightarrow> string" where
  "str_strip s = str_rstrip (str_lstrip s)"

text \<open>\<open>w in s\<close> for two strings: \<open>w\<close> occurs in \<open>s\<close> as a contiguous run.\<close>

fun str_in :: "string \<Rightarrow> string \<Rightarrow> bool" where
  "str_in w [] = (w = [])"
| "str_in w (c # cs) = (prefix w (c # cs) \<or> str_in w cs)"

text \<open>
  \<open>s.title()\<close>: a letter that follows a non-letter is put in upper case, every other letter
  in lower case. The flag says whether the previous character was a letter. The source
  applies it only to the keys of its table of strategies, which are ASCII, and this is
  \<open>title\<close> for ASCII text.
\<close>

fun title_from :: "bool \<Rightarrow> string \<Rightarrow> string" where
  "title_from prev [] = []"
| "title_from prev (c # cs) =
     (if isalpha c then (if prev then lower_char c else upper_char c) # title_from True cs
      else c # title_from False cs)"

definition str_title :: "string \<Rightarrow> string" where
  "str_title s = title_from False s"

text \<open>
  \<open>s.split(sep)\<close>: the pieces between the occurrences of \<open>sep\<close>, found from the left without
  overlap; an empty separator raises \<open>ValueError\<close>. The result is never empty.
\<close>

function split_from :: "string \<Rightarrow> string \<Rightarrow> string list" where
  "split_from sep [] = [[]]"
| "split_from sep (c # cs) =
     (if sep \<noteq> [] \<and> prefix sep (c # cs)
      then [] # split_from sep (drop (length sep) (c # cs))
      else (case split_from sep cs of
              [] \<Rightarrow> [[c]]
            | p # ps \<Rightarrow> (c # p) # ps))"
  by pat_completeness auto
termination
  by (relation "measure (\<lambda>(sep, s). length s)") auto

definition str_split :: "string \<Rightarrow> string \<Rightarrow> error + string list" where
  "str_split s sep = (if sep = [] then Inl ValueError else Inr (split_from sep s))"

text \<open>\<open>xs[-1]\<close>: the last element, \<open>IndexError\<close> on an empty list.\<close>

definition last_item :: "'a list \<Rightarrow> error + 'a" where
  "last_item xs = (if xs = [] then Inl IndexError else Inr (last xs))"

text \<open>
  \<open>s.replace(old, new)\<close>: every occurrence of \<open>old\<close>, found from the left without overlap,
  becomes \<open>new\<close>; an empty \<open>old\<close> matches before every character and at the end.
\<close>

function replace_from :: "string \<Rightarrow> string \<Rightarrow> string \<Rightarrow> string" where
  "replace_from old new [] = []"
| "replace_from old new (c # cs) =
     (if old \<noteq> [] \<and> prefix old (c # cs)
      then new @ replace_from old new (drop (length old) (c # cs))
      else c # replace_from old new cs)"
  by pat_completeness auto
termination
  by (relation "measure (\<lambda>(old, new, s). length s)") auto

definition str_replace :: "string \<Rightarrow> string \<Rightarrow> string \<Rightarrow> string" where
  "str_replace s old new =
     (if old = [] then new @ concat (map (\<lambda>c. c # new) s) else replace_from old new s)"

text \<open>\<open>sep.join(xs)\<close> and the subscript \<open>d[k]\<close> of a dictionary, kept as an association list
  in insertion order.\<close>

fun str_join :: "string \<Rightarrow> string list \<Rightarrow> string" where
  "str_join sep [] = []"
| "str_join sep [x] = x"
| "str_join sep (x # y # ys) = x @ sep @ str_join sep (y # ys)"

definition getitem :: "('k \<times> 'v) list \<Rightarrow> 'k \<Rightarrow> error + 'v" where
  "getitem d k = (case map_of d k of None \<Rightarrow> Inl KeyError | Some v \<Rightarrow> Inr v)"

text \<open>
  \<open>str(n)\<close> of an integer, as an f-string writes it: decimal digits, a minus sign in front
  of a negative number.
\<close>

definition digit_char :: "nat \<Rightarrow> char" where
  "digit_char d = ''0123456789'' ! (d mod 10)"

function str_nat :: "nat \<Rightarrow> string" where
  "str_nat n = (if n < 10 then [digit_char n] else str_nat (n div 10) @ [digit_char (n mod 10)])"
  by pat_completeness auto
termination
  by (relation "measure (\<lambda>n. n)") auto

declare str_nat.simps [simp del]

definition str_int :: "int \<Rightarrow> string" where
  "str_int i = (if i < 0 then CHR ''-'' # str_nat (nat (- i)) else str_nat (nat i))"

text \<open>
  \<open>template.format(**kwargs)\<close> for templates whose replacement fields are plain names, the
  only kind the source has. The text is read from the left; the second argument is the
  name of the field being read, if one is open. \<open>{{\<close> and \<open>}}\<close> stand for one brace, a name
  that is not among the arguments raises \<open>KeyError\<close>, a brace without its partner raises
  \<open>ValueError\<close>. A substituted value is copied as it is and is not read again.
\<close>

fun format_from :: "(string \<times> string) list \<Rightarrow> string option \<Rightarrow> string \<Rightarrow> error + string" where
  "format_from kwargs None [] = Inr []"
| "format_from kwargs (Some field) [] = Inl ValueError"
| "format_from kwargs (Some field) (c # cs) =
     (if c = CHR ''}''
      then (case map_of kwargs field of
              None \<Rightarrow> Inl KeyError
            | Some v \<Rightarrow> and_then (format_from kwargs None cs) (\<lambda>r. Inr (v @ r)))
      else format_from kwargs (Some (field @ [c])) cs)"
| "format_from kwargs None [c] =
     (if c = CHR ''{'' \<or> c = CHR ''}'' then Inl ValueError else Inr [c])"
| "format_from kwargs None (c # d # cs) =
     (if c = CHR ''{''
      then (if d = CHR ''{''
            then and_then (format_from kwargs None cs) (\<lambda>r. Inr (c # r))
            else format_from kwargs (Some []) (d # cs))
      else if c = CHR ''}''
      then (if d = CHR ''}''
            then and_then (format_from kwargs None cs) (\<lambda>r. Inr (c # r))
            else Inl ValueError)
      else and_then (format_from kwargs None (d # cs)) (\<lambda>r. Inr (c # r)))"

definition str_format :: "string \<Rightarrow> (string \<times> string) list \<Rightarrow> error + string" where
  "str_format template kwargs = format_from kwargs None template"

text \<open>
  \<open>random.choice\<close> takes one draw and raises \<open>IndexError\<close> on an empty sequence;
  \<open>random.sample\<close> takes \<open>k\<close> draws, removes each picked element from the pool, and raises
  \<open>ValueError\<close> when the population is smaller than \<open>k\<close>. Every outcome of the two library
  functions is the outcome of some sequence of draws.
\<close>

definition random_choice :: "env \<Rightarrow> 'a list \<Rightarrow> error + 'a" where
  "random_choice e seq =
     (if seq = [] then Inl IndexError else Inr (seq ! (rnd e 0 mod length seq)))"

fun sample_from :: "(nat \<Rightarrow> nat) \<Rightarrow> nat \<Rightarrow> 'a list \<Rightarrow> nat \<Rightarrow> 'a list" where
  "sample_from draws i pool 0 = []"
| "sample_from draws i pool (Suc k) =
     (let j = draws i mod length pool
      in pool ! j # sample_from draws (Suc i) (take j pool @ drop (Suc j) pool) k)"

definition random_sample :: "env \<Rightarrow> 'a list \<Rightarrow> nat \<Rightarrow> error + 'a list" where
  "random_sample e population k =
     (if length population < k then Inl ValueError else Inr (sample_from (rnd e) 0 population k))"

section \<open>The responder's data\<close>

text \<open>
  The object has the fields \<open>name\<close>, \<open>memory\<close>, \<open>intelligence_level\<close> and \<open>session_data\<close>, and
  four tables that \<open>__init__\<close> assigns once and no method writes again; the tables are
  constants here. A dictionary literal is an association list in the order of the source.
\<close>

record lia =
  name :: string
  memory :: "string \<rightharpoonup> string"
  intelligence_level :: int
  session_data :: "string \<rightharpoonup> string"

definition LooplyLIA :: "string \<Rightarrow> lia" where
  "LooplyLIA nm =
     \<lparr>name = nm, memory = Map.empty, intelligence_level = 5, session_data = Map.empty\<rparr>"

definition looply_hashtags :: "(string \<times> string list) list" where
  "looply_hashtags =
  [(''general'', [''#LooplyLife'', ''#Authentic'', ''#Community'', ''#Share'', ''#Connect'', ''#Vibes'', ''#RealTalk'']),
   (''fitness'', [''#FitnessJourney'', ''#HealthyLifestyle'', ''#WorkoutMotivation'', ''#FitFam'', ''#Wellness'', ''#LooplyFit'']),
   (''food'', [''#Foodie'', ''#Delicious'', ''#Cooking'', ''#Recipe'', ''#FoodLover'', ''#LooplyEats'']),
   (''travel'', [''#Travel'', ''#Adventure'', ''#Wanderlust'', ''#Explore'', ''#Journey'', ''#LooplyTravel'']),
   (''tech'', [''#Technology'', ''#Innovation'', ''#TechLife'', ''#Digital'', ''#Future'', ''#LooplyTech'']),
   (''art'', [''#Art'', ''#Creative'', ''#Artist'', ''#Inspiration'', ''#Design'', ''#LooplyArt'']),
   (''lifestyle'', [''#Lifestyle'', ''#Mindful'', ''#Balance'', ''#Growth'', ''#Positive'', ''#LooplyDaily'']),
   (''business'', [''#Entrepreneur'', ''#Business'', ''#Success'', ''#Hustle'', ''#Goals'', ''#LooplyBiz'']),
   (''entertainment'', [''#Fun'', ''#Entertainment'', ''#Music'', ''#Movies'', ''#Gaming'', ''#LooplyFun''])]"

definition caption_templates :: "string list" where
  "caption_templates =
  [[CHR 0xE2, CHR 0x9C, CHR 0xA8] @ '' {topic} vibes hitting different today... What's your take? '' @
     [CHR 0xF0, CHR 0x9F, CHR 0x92, CHR 0xAD] @ '' {hashtags}'',
   ''Just discovered something amazing about {topic}! '' @ [CHR 0xF0, CHR 0x9F, CHR 0x94, CHR 0xA5] @
     '' Who else can relate? {hashtags}'',
   ''Today's mood: {topic} energy! '' @ [CHR 0xF0, CHR 0x9F, CHR 0x92, CHR 0xAB] @
     '' Drop your thoughts below '' @ [CHR 0xF0, CHR 0x9F, CHR 0x91, CHR 0x87] @ '' {hashtags}'',
   ''Let's talk about {topic}... Your perspective matters! '' @
     [CHR 0xF0, CHR 0x9F, CHR 0x8C, CHR 0x9F] @ '' {hashtags}'',
   ''Feeling inspired by {topic} lately '' @ [CHR 0xF0, CHR 0x9F, CHR 0x9A, CHR 0x80] @
     '' Anyone else on this wavelength? {hashtags}'',
   ''Real talk about {topic}: it's been a game-changer '' @ [CHR 0xF0, CHR 0x9F, CHR 0x92, CHR 0xAF] @
     '' {hashtags}'',
   ''Can we normalize talking about {topic}? It's so important! '' @
     [CHR 0xF0, CHR 0x9F, CHR 0x99, CHR 0x8C] @ '' {hashtags}'',
   ''Plot twist: {topic} just became my new obsession '' @ [CHR 0xF0, CHR 0x9F, CHR 0x98, CHR 0x8D] @
     '' {hashtags}'',
   ''Unpopular opinion: {topic} doesn't get enough credit '' @
     [CHR 0xF0, CHR 0x9F, CHR 0xA4, CHR 0x94] @ '' {hashtags}'',
   ''Behind the scenes of my {topic} journey... it's been wild! '' @
     [CHR 0xF0, CHR 0x9F, CHR 0x93, CHR 0xB8] @ '' {hashtags}'']"

definition content_ideas :: "string list" where
  "content_ideas =
  [[CHR 0xF0, CHR 0x9F, CHR 0x92, CHR 0xA1] @ '' Share a behind-the-scenes moment from your day'',
   [CHR 0xF0, CHR 0x9F, CHR 0x8E, CHR 0xAF] @ '' Ask your community a thought-provoking question'',
   [CHR 0xF0, CHR 0x9F, CHR 0x93, CHR 0x9A] @ '' Share something new you learned recently'',
   [CHR 0xF0, CHR 0x9F, CHR 0x8C, CHR 0x9F] @ '' Highlight someone who inspires you'',
   [CHR 0xF0, CHR 0x9F, CHR 0x8E, CHR 0xA8] @ '' Create a poll about preferences in your niche'',
   [CHR 0xF0, CHR 0x9F, CHR 0x92, CHR 0xAD] @ '' Share a personal reflection or insight'',
   [CHR 0xF0, CHR 0x9F, CHR 0x93, CHR 0xB8] @ '' Post a photo that tells a story'',
   [CHR 0xF0, CHR 0x9F, CHR 0x8E, CHR 0x89] @ '' Celebrate a small win or achievement'',
   [CHR 0xF0, CHR 0x9F, CHR 0x94, CHR 0xA5] @ '' Share a hot take or unpopular opinion'',
   [CHR 0xF0, CHR 0x9F, CHR 0x92, CHR 0xAA] @ '' Document your progress on a goal'',
   [CHR 0xF0, CHR 0x9F, CHR 0xA4, CHR 0x9D] @ '' Collaborate with another creator'',
   [CHR 0xF0, CHR 0x9F, CHR 0x93, CHR 0xB1] @ '' Show your creative process'',
   [CHR 0xF0, CHR 0x9F, CHR 0x8E, CHR 0xB5] @ '' Share what you're listening to'',
   [CHR 0xF0, CHR 0x9F, CHR 0x8C, CHR 0x85] @ '' Post your morning routine'',
   [CHR 0xF0, CHR 0x9F, CHR 0x8D, CHR 0x95] @ '' Share what you're eating'',
   [CHR 0xE2, CHR 0x9C, CHR 0x88, CHR 0xEF, CHR 0xB8, CHR 0x8F] @ '' Document a mini adventure'',
   [CHR 0xF0, CHR 0x9F, CHR 0x92, CHR 0xA1] @ '' Give a quick tip in your expertise'',
   [CHR 0xF0, CHR 0x9F, CHR 0x8E, CHR 0xAD] @ '' Share a funny moment or meme'',
   [CHR 0xF0, CHR 0x9F, CHR 0x93, CHR 0x96] @ '' Recommend something you love'',
   [CHR 0xF0, CHR 0x9F, CHR 0x8E, CHR 0x8A] @ '' Celebrate your community'']"

definition engagement_strategies :: "(string \<times> string) list" where
  "engagement_strategies =
  [(''post_timing'',
    ''Best posting times on Looply: 7-9 AM, 12-1 PM, and 7-9 PM when your community is most '' @
      ''active!''),
   (''hashtag_strategy'',
    ''Use 5-8 hashtags: mix 2-3 popular ones (#LooplyLife) with 3-5 niche ones specific to '' @
      ''your content.''),
   (''content_mix'',
    ''Follow the 80/20 rule: 80% valuable/entertaining content, 20% promotional. Keep it '' @
      ''authentic!''),
   (''community_building'',
    ''Respond to comments within the first hour. Ask questions in your captions to spark '' @
      ''conversations.''),
   (''consistency'',
    ''Post consistently but prioritize quality over quantity. 3-5 high-quality posts per week '' @
      ''beats daily rushed content.''),
   (''storytelling'',
    ''Every post should tell a story. Start with a hook, share the journey, and end with a '' @
      ''call-to-action.''),
   (''visual_appeal'',
    ''Good lighting and composition matter more than expensive equipment. Natural light is '' @
      ''your best friend!''),
   (''authenticity'',
    ''Share both wins and struggles. Your community connects with real, relatable content '' @
      ''more than perfection.'')]"

text \<open>The list local to \<open>analyze_trends\<close>, and the lists and literals local to \<open>chat\<close>.\<close>

definition trends :: "string list" where
  "trends =
  [[CHR 0xF0, CHR 0x9F, CHR 0x93, CHR 0x88] @
     '' 'Authentic storytelling' posts are performing 300% better this week'',
   [CHR 0xF0, CHR 0x9F, CHR 0x94, CHR 0xA5] @
     '' 'Behind-the-scenes' content is trending - people love the real you!'',
   [CHR 0xF0, CHR 0x9F, CHR 0x92, CHR 0xA1] @
     '' Q&A format posts are getting amazing engagement lately'',
   [CHR 0xF0, CHR 0x9F, CHR 0x8E, CHR 0xAF] @
     '' 'Day in my life' content is super popular right now'',
   [CHR 0xE2, CHR 0x9C, CHR 0xA8] @ '' Carousel posts with tips are getting great reach'',
   [CHR 0xF0, CHR 0x9F, CHR 0x8C, CHR 0x9F] @
     '' Community challenges are driving massive engagement'']"

definition greetings :: "string list" where
  "greetings =
  [''Hey there! '' @ [CHR 0xF0, CHR 0x9F, CHR 0x91, CHR 0x8B] @
     '' I'm LIA, your Looply assistant. Ready to create something amazing?'',
   ''Hello! '' @ [CHR 0xE2, CHR 0x9C, CHR 0xA8] @
     '' I'm here to help you level up your Looply game. What can we work on?'',
   ''Hi! '' @ [CHR 0xF0, CHR 0x9F, CHR 0x9A, CHR 0x80] @
     '' I'm LIA, and I'm excited to help you create engaging content for Looply!'']"

definition social_jokes :: "string list" where
  "social_jokes =
  [''Why don't social media managers ever get lost? They always know how to find their way '' @
     ''to trending! '' @ [CHR 0xF0, CHR 0x9F, CHR 0x98, CHR 0x84],
   ''What do you call a hashtag that works out? #FitTag! '' @
     [CHR 0xF0, CHR 0x9F, CHR 0x92, CHR 0xAA],
   ''Why did the influencer bring a ladder to the photoshoot? To reach new heights! '' @
     [CHR 0xF0, CHR 0x9F, CHR 0x93, CHR 0xB8],
   ''What's a content creator's favorite type of music? Algo-rhythms! '' @
     [CHR 0xF0, CHR 0x9F, CHR 0x8E, CHR 0xB5]]"

definition performance_tips :: "string" where
  "performance_tips =
  [CHR 0xF0, CHR 0x9F, CHR 0x93, CHR 0x8A] @ '' **Looply Performance Tips:**'' @
   [CHR 0x0A, CHR 0x0A, CHR 0xF0, CHR 0x9F, CHR 0x8E, CHR 0xAF] @ '' **Key Metrics to Track:**'' @
   [CHR 0x0A, CHR 0xE2, CHR 0x80, CHR 0xA2] @ '' Engagement rate (likes + comments '' @
   [CHR 0xC3, CHR 0xB7] @ '' followers)'' @ [CHR 0x0A, CHR 0xE2, CHR 0x80, CHR 0xA2] @
   '' Reach and impressions'' @ [CHR 0x0A, CHR 0xE2, CHR 0x80, CHR 0xA2] @
   '' Profile visits and follows'' @ [CHR 0x0A, CHR 0xE2, CHR 0x80, CHR 0xA2] @
   '' Save rate (shows content value)'' @
   [CHR 0x0A, CHR 0x0A, CHR 0xF0, CHR 0x9F, CHR 0x93, CHR 0x88] @ '' **Optimization Strategies:**'' @
   [CHR 0x0A, CHR 0xE2, CHR 0x80, CHR 0xA2] @ '' Post when your audience is most active'' @
   [CHR 0x0A, CHR 0xE2, CHR 0x80, CHR 0xA2] @ '' Use analytics to identify top-performing content'' @
   [CHR 0x0A, CHR 0xE2, CHR 0x80, CHR 0xA2] @ '' A/B test different caption styles'' @
   [CHR 0x0A, CHR 0xE2, CHR 0x80, CHR 0xA2] @ '' Monitor hashtag performance'' @
   [CHR 0x0A, CHR 0x0A, CHR 0xF0, CHR 0x9F, CHR 0x9A, CHR 0x80] @ '' **Growth Hacks:**'' @
   [CHR 0x0A, CHR 0xE2, CHR 0x80, CHR 0xA2] @ '' Collaborate with other creators'' @
   [CHR 0x0A, CHR 0xE2, CHR 0x80, CHR 0xA2] @ '' Engage actively in your community'' @
   [CHR 0x0A, CHR 0xE2, CHR 0x80, CHR 0xA2] @ '' Share user-generated content'' @
   [CHR 0x0A, CHR 0xE2, CHR 0x80, CHR 0xA2] @ '' Host live sessions or Q&As''"

definition learn_hint :: "string" where
  "learn_hint =
  [CHR 0xF0, CHR 0x9F, CHR 0xA7, CHR 0xA0] @
   '' I can learn! Try: 'learn my niche: fitness' or 'remember posting time: 7 PM'' @ [CHR 0x27]"

definition help_text :: "string" where
  "help_text =
  [CHR 0xF0, CHR 0x9F, CHR 0x8C, CHR 0x9F] @
   '' **I'm LIA, your Looply assistant! Here's what I can help with:**'' @
   [CHR 0x0A, CHR 0x0A, CHR 0xF0, CHR 0x9F, CHR 0x93, CHR 0x9D] @ '' **Content Creation:**'' @
   [CHR 0x0A, CHR 0xE2, CHR 0x80, CHR 0xA2] @ '' '' @ [CHR 0x22] @ ''Create a caption about travel'' @
   [CHR 0x22, CHR 0x0A, CHR 0xE2, CHR 0x80, CHR 0xA2] @ '' '' @ [CHR 0x22] @
   ''Generate hashtags for fitness'' @ [CHR 0x22, CHR 0x0A, CHR 0xE2, CHR 0x80, CHR 0xA2] @ '' '' @
   [CHR 0x22] @ ''Give me content ideas'' @
   [CHR 0x22, CHR 0x0A, CHR 0x0A, CHR 0xF0, CHR 0x9F, CHR 0x93, CHR 0x8A] @
   '' **Growth & Strategy:**'' @ [CHR 0x0A, CHR 0xE2, CHR 0x80, CHR 0xA2] @ '' '' @ [CHR 0x22] @
   ''Engagement tips'' @ [CHR 0x22, CHR 0x0A, CHR 0xE2, CHR 0x80, CHR 0xA2] @ '' '' @ [CHR 0x22] @
   ''Current trends'' @ [CHR 0x22, CHR 0x0A, CHR 0xE2, CHR 0x80, CHR 0xA2] @ '' '' @ [CHR 0x22] @
   ''Performance advice'' @ [CHR 0x22, CHR 0x0A, CHR 0x0A, CHR 0xF0, CHR 0x9F, CHR 0xA7, CHR 0xA0] @
   '' **Learning:**'' @ [CHR 0x0A, CHR 0xE2, CHR 0x80, CHR 0xA2] @ '' '' @ [CHR 0x22] @
   ''Learn my niche: photography'' @ [CHR 0x22, CHR 0x0A, CHR 0xE2, CHR 0x80, CHR 0xA2] @ '' '' @
   [CHR 0x22] @ ''Remember my posting time: 8 PM'' @
   [CHR 0x22, CHR 0x0A, CHR 0x0A, CHR 0xF0, CHR 0x9F, CHR 0x92, CHR 0xA1] @ '' **Quick Commands:**'' @
   [CHR 0x0A, CHR 0xE2, CHR 0x80, CHR 0xA2] @ '' Ask for jokes, time, or just say hello!'' @
   [CHR 0x0A, CHR 0xE2, CHR 0x80, CHR 0xA2] @
   '' Be specific about your niche for better suggestions''"

definition defaults :: "string list" where
  "defaults =
  [[CHR 0xF0, CHR 0x9F, CHR 0xA4, CHR 0x94] @
     '' I'm still learning about that! Try asking for captions, hashtags, content ideas, or '' @
     ''engagement tips.'',
   [CHR 0xF0, CHR 0x9F, CHR 0x92, CHR 0xA1] @
     '' Not sure about that one! I'm great with content creation, hashtags, and Looply growth '' @
     ''strategies.'',
   [CHR 0xE2, CHR 0x9C, CHR 0xA8] @
     '' Let me help you with something I know well - try asking for a caption or content ideas!'']"

section \<open>Memory\<close>

text \<open>\<open>LooplyLIA.learn\<close> and \<open>LooplyLIA.recall\<close>. A method that writes a field returns the
  updated object next to its result.\<close>

definition learn :: "lia \<Rightarrow> string \<Rightarrow> string \<Rightarrow> string \<times> lia" where
  "learn self key val =
     ([CHR 0xE2, CHR 0x9C, CHR 0x85] @ '' Learned '' @ key @
        ''. I'll remember this for our future conversations!'',
      self\<lparr>memory := (memory self)(key \<mapsto> val)\<rparr>)"

definition recall_default :: string where
  "recall_default =
     [CHR 0xF0, CHR 0x9F, CHR 0xA4, CHR 0x94] @ '' I don't remember that yet. Want to teach me?''"

definition recall :: "lia \<Rightarrow> string \<Rightarrow> string" where
  "recall self key = (case memory self key of Some v \<Rightarrow> v | None \<Rightarrow> recall_default)"

section \<open>Hashtags of a topic\<close>

text \<open>\<open>LooplyLIA.get_hashtags_for_topic\<close>: the chain of keyword tests picks a category, the
  table gives its hashtags.\<close>

definition get_hashtags_for_topic :: "env \<Rightarrow> string \<Rightarrow> error + string list" where
  "get_hashtags_for_topic e topic_text =
     (let topic_text = str_lower e topic_text;
          category =
            (if list_ex (\<lambda>word. str_in word topic_text) [''fitness'', ''workout'', ''gym'', ''health'']
             then ''fitness''
             else if list_ex (\<lambda>word. str_in word topic_text) [''food'', ''recipe'', ''cooking'', ''eat'']
             then ''food''
             else if list_ex (\<lambda>word. str_in word topic_text) [''travel'', ''vacation'', ''trip'']
             then ''travel''
             else if list_ex (\<lambda>word. str_in word topic_text) [''tech'', ''code'', ''programming'', ''ai'']
             then ''tech''
             else if list_ex (\<lambda>word. str_in word topic_text) [''art'', ''design'', ''creative'']
             then ''art''
             else if list_ex (\<lambda>word. str_in word topic_text) [''business'', ''entrepreneur'', ''startup'']
             then ''business''
             else if list_ex (\<lambda>word. str_in word topic_text) [''music'', ''movie'', ''game'', ''fun'']
             then ''entertainment''
             else if list_ex (\<lambda>word. str_in word topic_text) [''lifestyle'', ''mindful'', ''balance'']
             then ''lifestyle''
             else ''general'')
      in getitem looply_hashtags category)"

text \<open>
  The specification's wording of the same operation: an ordered table of keyword sets, the
  first entry with a keyword occurring in the lowercased input names the category, and
  \<open>general\<close> is the category when no entry matches.
\<close>

definition category_keywords :: "(string \<times> string list) list" where
  "category_keywords =
     [(''fitness'', [''fitness'', ''workout'', ''gym'', ''health'']),
      (''food'', [''food'', ''recipe'', ''cooking'', ''eat'']),
      (''travel'', [''travel'', ''vacation'', ''trip'']),
      (''tech'', [''tech'', ''code'', ''programming'', ''ai'']),
      (''art'', [''art'', ''design'', ''creative'']),
      (''business'', [''business'', ''entrepreneur'', ''startup'']),
      (''entertainment'', [''music'', ''movie'', ''game'', ''fun'']),
      (''lifestyle'', [''lifestyle'', ''mindful'', ''balance''])]"

definition occurs_any :: "string list \<Rightarrow> string \<Rightarrow> bool" where
  "occurs_any keywords text = list_ex (\<lambda>w. str_in w text) keywords"

definition first_category :: "string \<Rightarrow> string" where
  "first_category text =
     (case find (\<lambda>entry. occurs_any (snd entry) text) category_keywords of
        Some entry \<Rightarrow> fst entry
      | None \<Rightarrow> ''general'')"

definition fitness_hashtags :: "string list" where
  "fitness_hashtags =
     [''#FitnessJourney'', ''#HealthyLifestyle'', ''#WorkoutMotivation'', ''#FitFam'', ''#Wellness'',
      ''#LooplyFit'']"

definition general_hashtags :: "string list" where
  "general_hashtags =
     [''#LooplyLife'', ''#Authentic'', ''#Community'', ''#Share'', ''#Connect'', ''#Vibes'', ''#RealTalk'']"

definition art_hashtags :: "string list" where
  "art_hashtags = [''#Art'', ''#Creative'', ''#Artist'', ''#Inspiration'', ''#Design'', ''#LooplyArt'']"

definition business_hashtags :: "string list" where
  "business_hashtags =
     [''#Entrepreneur'', ''#Business'', ''#Success'', ''#Hustle'', ''#Goals'', ''#LooplyBiz'']"

definition food_hashtags :: "string list" where
  "food_hashtags = [''#Foodie'', ''#Delicious'', ''#Cooking'', ''#Recipe'', ''#FoodLover'', ''#LooplyEats'']"

section \<open>Captions, content ideas, engagement tips and trends\<close>

text \<open>\<open>LooplyLIA.generate_caption\<close>; the style is the string the caller passes.\<close>

definition generate_caption :: "env \<Rightarrow> string \<Rightarrow> string \<Rightarrow> error + string" where
  "generate_caption e topic style =
     and_then (random_choice e caption_templates) (\<lambda>template.
     and_then (get_hashtags_for_topic e topic) (\<lambda>hashtags.
       let template =
             (if style = ''professional''
              then str_replace
                     (str_replace template ''vibes hitting different'' ''insights resonating strongly'')
                     ''Real talk'' ''Key insight''
              else if style = ''creative''
              then [CHR 0xF0, CHR 0x9F, CHR 0x8E, CHR 0xA8] @ '' '' @ template
              else template)
       in str_format template
            [(''topic'', topic), (''hashtags'', str_join '' '' (take 5 hashtags))]))"

text \<open>\<open>LooplyLIA.get_content_ideas\<close>.\<close>

definition get_content_ideas :: "env \<Rightarrow> string \<Rightarrow> error + string" where
  "get_content_ideas e niche =
     and_then (random_sample e content_ideas 5) (\<lambda>ideas.
       let niche_specific =
             [CHR 0x0A, CHR 0x0A, CHR 0xF0, CHR 0x9F, CHR 0x8E, CHR 0xAF] @ '' For '' @ niche @
             '' creators: Consider sharing industry insights, behind-the-scenes content, or '' @
             ''community challenges!''
       in Inr (str_join [CHR 0x0A]
                 (map (\<lambda>(i, idea). str_nat (i + 1) @ ''. '' @ idea) (enumerate 0 ideas))
               @ niche_specific))"

text \<open>\<open>LooplyLIA.get_engagement_tips\<close>; the loop over the dictionary is a fold over its
  entries in insertion order.\<close>

definition get_engagement_tips :: "string \<Rightarrow> error + string" where
  "get_engagement_tips focus =
     (if focus \<in> set (map fst engagement_strategies)
      then and_then (getitem engagement_strategies focus) (\<lambda>tip.
             Inr ([CHR 0xF0, CHR 0x9F, CHR 0x92, CHR 0xA1] @ '' '' @ tip))
      else
        let tips = [CHR 0xF0, CHR 0x9F, CHR 0x9A, CHR 0x80] @ '' **Looply Engagement Mastery:**'' @
                   [CHR 0x0A, CHR 0x0A];
            tips = foldl (\<lambda>tips (strategy, tip).
                      tips @ ''**'' @ str_title (str_replace strategy ''_'' '' '') @ '':** '' @ tip @
                      [CHR 0x0A, CHR 0x0A])
                    tips engagement_strategies;
            tips = tips @ [CHR 0xF0, CHR 0x9F, CHR 0x8C, CHR 0x9F] @
                   '' Remember: Authentic engagement beats vanity metrics every time!''
        in Inr tips)"

text \<open>\<open>LooplyLIA.analyze_trends\<close>.\<close>

definition analyze_trends :: "env \<Rightarrow> error + string" where
  "analyze_trends e =
     and_then (random_sample e trends 3) (\<lambda>picked.
       Inr ([CHR 0xF0, CHR 0x9F, CHR 0x8E, CHR 0xAD] @ '' **Current Looply Trends:**'' @
            [CHR 0x0A, CHR 0x0A] @ str_join [CHR 0x0A] picked))"

section \<open>The dispatcher\<close>

text \<open>The expression \<open>user_input.split(sep)[-1].strip()\<close>, which \<open>chat\<close> uses three times.\<close>

definition text_after :: "string \<Rightarrow> string \<Rightarrow> error + string" where
  "text_after user_input sep =
     and_then (str_split user_input sep) (\<lambda>parts.
     and_then (last_item parts) (\<lambda>piece. Inr (str_strip piece)))"

text \<open>
  \<open>LooplyLIA.chat\<close>. The lists and long literals that the branches hold are the constants
  \<open>greetings\<close>, \<open>social_jokes\<close>, \<open>performance_tips\<close>, \<open>learn_hint\<close>, \<open>help_text\<close> and
  \<open>defaults\<close>. The result is the reply together with the object after the call.
\<close>

definition chat :: "env \<Rightarrow> lia \<Rightarrow> string \<Rightarrow> error + (string \<times> lia)" where
  "chat e self user_input =
     (let user_input = str_strip (str_lower e user_input) in
      if list_ex (\<lambda>word. str_in word user_input) [''hello'', ''hi'', ''hey'']
      then and_then (random_choice e greetings) (\<lambda>r. Inr (r, self))
      else if str_in ''time'' user_input
      then Inr ([CHR 0xE2, CHR 0x8F, CHR 0xB0] @ '' Current time is '' @ clock e @
                '' - Perfect time to create some content!'', self)
      else if str_in ''joke'' user_input
      then and_then (random_choice e social_jokes) (\<lambda>r. Inr (r, self))
      else if list_ex (\<lambda>phrase. str_in phrase user_input) [''caption'', ''post idea'', ''create post'']
      then and_then
             (if str_in ''about'' user_input then text_after user_input ''about''
              else if str_in ''for'' user_input then text_after user_input ''for''
              else Inr ''your experience'')
             (\<lambda>topic. and_then (generate_caption e topic ''casual'') (\<lambda>r. Inr (r, self)))
      else if str_in ''hashtag'' user_input
      then (let topic = str_strip (str_replace user_input ''hashtag'' '''');
                topic = (if topic = [] then ''general content'' else topic)
            in and_then (get_hashtags_for_topic e topic) (\<lambda>hashtags.
                 Inr ([CHR 0xF0, CHR 0x9F, CHR 0x93, CHR 0x9D] @ '' **Hashtag suggestions for '' @
                      topic @ '':**'' @ [CHR 0x0A, CHR 0x0A] @ str_join '' '' hashtags @
                      [CHR 0x0A, CHR 0x0A, CHR 0xF0, CHR 0x9F, CHR 0x92, CHR 0xA1] @
                      '' Tip: Mix popular and niche hashtags for best reach!'', self)))
      else if list_ex (\<lambda>phrase. str_in phrase user_input)
                [''content idea'', ''post suggestion'', ''what to post'']
      then and_then
             (if str_in ''for'' user_input then text_after user_input ''for'' else Inr ''general'')
             (\<lambda>niche. and_then (get_content_ideas e niche) (\<lambda>ideas.
                Inr ([CHR 0xF0, CHR 0x9F, CHR 0x92, CHR 0xA1] @ '' **Content Ideas for You:**'' @
                     [CHR 0x0A, CHR 0x0A] @ ideas, self)))
      else if list_ex (\<lambda>phrase. str_in phrase user_input)
                [''engagement'', ''more likes'', ''more followers'', ''grow'']
      then and_then (get_engagement_tips ''general'') (\<lambda>r. Inr (r, self))
      else if list_ex (\<lambda>phrase. str_in phrase user_input)
                [''trend'', ''trending'', ''popular'', ''viral'']
      then and_then (analyze_trends e) (\<lambda>r. Inr (r, self))
      else if list_ex (\<lambda>phrase. str_in phrase user_input)
                [''performance'', ''analytics'', ''metrics'']
      then Inr (performance_tips, self)
      else if str_in ''learn'' user_input \<or> str_in ''remember'' user_input
      then Inr (learn_hint, self)
      else if str_in ''upgrade'' user_input
      then (let self = self\<lparr>intelligence_level := intelligence_level self + 1\<rparr>
            in Inr ([CHR 0xF0, CHR 0x9F, CHR 0x9A, CHR 0x80] @ '' Intelligence upgraded to level '' @
                    str_int (intelligence_level self) @
                    ''! I'm getting smarter about Looply content creation!'', self))
      else if list_ex (\<lambda>word. str_in word user_input) [''help'', ''commands'', ''what can you do'']
      then Inr (help_text, self)
      else and_then (random_choice e defaults) (\<lambda>r. Inr (r, self)))"

text \<open>A session: the calls of \<open>chat\<close> one after the other on the same object, each with
  its own draws and clock. An exception ends the session.\<close>

fun chats :: "lia \<Rightarrow> (env \<times> string) list \<Rightarrow> error + (string list \<times> lia)" where
  "chats self [] = Inr ([], self)"
| "chats self ((e, user_input) # calls) =
     and_then (chat e self user_input) (\<lambda>(reply, self).
     and_then (chats self calls) (\<lambda>(replies, self). Inr (reply # replies, self)))"

section \<open>The specification's reading of the dispatcher\<close>

text \<open>
  The specification describes \<open>respond\<close> as an ordered list of keyword predicates, each with
  its effect, of which the first that matches the normalized utterance answers. The
  definitions below follow that wording; \<open>chat\<close> above follows the source.
\<close>

datatype intent =
  Greeting | TimeQuery | Joke | Caption | Hashtag | ContentIdea | Engagement | Trend
  | Analytics | LearnRemember | Upgrade | Help | Fallback

definition intent_keywords :: "(intent \<times> string list) list" where
  "intent_keywords =
     [(Greeting, [''hello'', ''hi'', ''hey'']),
      (TimeQuery, [''time'']),
      (Joke, [''joke'']),
      (Caption, [''caption'', ''post idea'', ''create post'']),
      (Hashtag, [''hashtag'']),
      (ContentIdea, [''content idea'', ''post suggestion'', ''what to post'']),
      (Engagement, [''engagement'', ''more likes'', ''more followers'', ''grow'']),
      (Trend, [''trend'', ''trending'', ''popular'', ''viral'']),
      (Analytics, [''performance'', ''analytics'', ''metrics'']),
      (LearnRemember, [''learn'', ''remember'']),
      (Upgrade, [''upgrade'']),
      (Help, [''help'', ''commands'', ''what can you do''])]"

definition classify :: "string \<Rightarrow> intent" where
  "classify text =
     (case find (\<lambda>entry. occurs_any (snd entry) text) intent_keywords of
        Some entry \<Rightarrow> fst entry
      | None \<Rightarrow> Fallback)"

definition normalize_utterance :: "env \<Rightarrow> string \<Rightarrow> string" where
  "normalize_utterance e utterance = str_strip (str_lower e utterance)"

fun intent_response :: "intent \<Rightarrow> env \<Rightarrow> lia \<Rightarrow> string \<Rightarrow> error + (string \<times> lia)" where
  "intent_response Greeting e self text =
     and_then (random_choice e greetings) (\<lambda>r. Inr (r, self))"
| "intent_response TimeQuery e self text =
     Inr ([CHR 0xE2, CHR 0x8F, CHR 0xB0] @ '' Current time is '' @ clock e @
          '' - Perfect time to create some content!'', self)"
| "intent_response Joke e self text =
     and_then (random_choice e social_jokes) (\<lambda>r. Inr (r, self))"
| "intent_response Caption e self text =
     and_then
       (if str_in ''about'' text then text_after text ''about''
        else if str_in ''for'' text then text_after text ''for''
        else Inr ''your experience'')
       (\<lambda>topic. and_then (generate_caption e topic ''casual'') (\<lambda>r. Inr (r, self)))"
| "intent_response Hashtag e self text =
     (let removed = str_strip (str_replace text ''hashtag'' '''');
          topic = (if removed = [] then ''general content'' else removed)
      in and_then (get_hashtags_for_topic e topic) (\<lambda>hashtags.
           Inr ([CHR 0xF0, CHR 0x9F, CHR 0x93, CHR 0x9D] @ '' **Hashtag suggestions for '' @
                topic @ '':**'' @ [CHR 0x0A, CHR 0x0A] @ str_join '' '' hashtags @
                [CHR 0x0A, CHR 0x0A, CHR 0xF0, CHR 0x9F, CHR 0x92, CHR 0xA1] @
                '' Tip: Mix popular and niche hashtags for best reach!'', self)))"
| "intent_response ContentIdea e self text =
     and_then
       (if str_in ''for'' text then text_after text ''for'' else Inr ''general'')
       (\<lambda>niche. and_then (get_content_ideas e niche) (\<lambda>ideas.
          Inr ([CHR 0xF0, CHR 0x9F, CHR 0x92, CHR 0xA1] @ '' **Content Ideas for You:**'' @
               [CHR 0x0A, CHR 0x0A] @ ideas, self)))"
| "intent_response Engagement e self text =
     and_then (get_engagement_tips ''general'') (\<lambda>r. Inr (r, self))"
| "intent_response Trend e self text =
     and_then (analyze_trends e) (\<lambda>r. Inr (r, self))"
| "intent_response Analytics e self text = Inr (performance_tips, self)"
| "intent_response LearnRemember e self text = Inr (learn_hint, self)"
| "intent_response Upgrade e self text =
     Inr ([CHR 0xF0, CHR 0x9F, CHR 0x9A, CHR 0x80] @ '' Intelligence upgraded to level '' @
          str_int (intelligence_level self + 1) @
          ''! I'm getting smarter about Looply content creation!'',
          self\<lparr>intelligence_level := intelligence_level self + 1\<rparr>)"
| "intent_response Help e self text = Inr (help_text, self)"
| "intent_response Fallback e self text =
     and_then (random_choice e defaults) (\<lambda>r. Inr (r, self))"

definition respond :: "env \<Rightarrow> lia \<Rightarrow> string \<Rightarrow> error + (string \<times> lia)" where
  "respond e self utterance =
     (let text = normalize_utterance e utterance in intent_response (classify text) e self text)"

definition reply_of :: "error + (string \<times> lia) \<Rightarrow> error + string" where
  "reply_of r = map_sum id fst r"

section \<open>Hashtag tokens of a text\<close>

text \<open>
  The tokens of a text are its maximal runs of characters that are not whitespace, what
  \<open>str.split()\<close> without an argument returns; a hashtag token is one that starts with
  \<open>#\<close>. The first argument of \<open>tokens_from\<close> is the token being read.
\<close>

function tokens_from :: "string \<Rightarrow> string \<Rightarrow> string list" where
  "tokens_from cur [] = (if cur = [] then [] else [cur])"
| "tokens_from cur (c # cs) =
     (case space_prefix (c # cs) of
        Some w \<Rightarrow> (if cur = [] then [] else [cur]) @ tokens_from [] (drop (length w) (c # cs))
      | None \<Rightarrow> tokens_from (cur @ [c]) cs)"
  by pat_completeness auto
termination
proof (relation "measure (\<lambda>(cur, s). length s)")
  show "wf (measure (\<lambda>(cur, s). length s))"
    by simp
next
  fix cur :: string and c cs w
  assume "space_prefix (c # cs) = Some w"
  then have "w \<in> set whitespace"
    by (auto simp add: space_prefix_def find_Some_iff)
  then have "w \<noteq> []"
    by (auto simp add: whitespace_def)
  then show "(([], drop (length w) (c # cs)), (cur, c # cs)) \<in> measure (\<lambda>(cur, s). length s)"
    by simp
next
  fix cur :: string and c cs
  show "((cur @ [c], cs), (cur, c # cs)) \<in> measure (\<lambda>(cur, s). length s)"
    by simp
qed

definition hashtag_tokens :: "string \<Rightarrow> nat" where
  "hashtag_tokens s = length (filter (\<lambda>w. prefix ''#'' w) (tokens_from [] s))"

text \<open>
  The same number counted in place: the \<open>#\<close> that stand at the start of the text or right
  after a whitespace character. The flag says whether a token would start here.
\<close>

function hash_starts :: "bool \<Rightarrow> string \<Rightarrow> nat" where
  "hash_starts fresh [] = 0"
| "hash_starts fresh (c # cs) =
     (case space_prefix (c # cs) of
        Some w \<Rightarrow> hash_starts True (drop (length w) (c # cs))
      | None \<Rightarrow> (if fresh \<and> c = CHR ''#'' then 1 else 0) + hash_starts False cs)"
  by pat_completeness auto
termination
proof (relation "measure (\<lambda>(fresh, s). length s)")
  show "wf (measure (\<lambda>(fresh, s). length s))"
    by simp
next
  fix fresh :: bool and c cs w
  assume "space_prefix (c # cs) = Some w"
  then have "w \<in> set whitespace"
    by (auto simp add: space_prefix_def find_Some_iff)
  then have "w \<noteq> []"
    by (auto simp add: whitespace_def)
  then show "((True, drop (length w) (c # cs)), (fresh, c # cs)) \<in> measure (\<lambda>(fresh, s). length s)"
    by simp
next
  fix fresh :: bool and c cs
  show "((False, cs), (fresh, c # cs)) \<in> measure (\<lambda>(fresh, s). length s)"
    by simp
qed

text \<open>A text is blank when it is a sequence of whitespace characters.\<close>

definition blank :: "string \<Rightarrow> bool" where
  "blank s = (\<exists>ws. set ws \<subseteq> set whitespace \<and> s = concat ws)"

section \<open>Auxiliary notions for the caption templates\<close>

text \<open>
  The literal text of a template in front of its first replacement field, and the literal
  text between the closing brace of that field and the next opening brace. A template has
  the caption shape when it is such a head, \<open>{topic}\<close>, such a middle and \<open>{hashtags}\<close>,
  neither literal part holds a brace or a \<open>#\<close>, the head ends with an ASCII character and
  the middle starts and ends with one.
\<close>

definition template_head :: "string \<Rightarrow> string" where
  "template_head template = takeWhile (\<lambda>c. c \<noteq> CHR ''{'') template"

definition template_middle :: "string \<Rightarrow> string" where
  "template_middle template =
     takeWhile (\<lambda>c. c \<noteq> CHR ''{'')
       (drop 1 (dropWhile (\<lambda>c. c \<noteq> CHR ''}'') template))"

definition plain_text :: "string \<Rightarrow> bool" where
  "plain_text s = list_all (\<lambda>c. c \<noteq> CHR ''{'' \<and> c \<noteq> CHR ''}'' \<and> c \<noteq> CHR ''#'') s"

definition caption_shape :: "string \<Rightarrow> bool" where
  "caption_shape template =
     (template = template_head template @ ''{topic}'' @ template_middle template @ ''{hashtags}''
      \<and> plain_text (template_head template) \<and> plain_text (template_middle template)
      \<and> template_head template \<noteq> [] \<and> ascii (last (template_head template))
      \<and> template_middle template \<noteq> [] \<and> ascii (hd (template_middle template))
      \<and> ascii (last (template_middle template)))"

section \<open>Sample surroundings\<close>

text \<open>
  An environment for concrete runs: every raw draw is \<open>0\<close>, the clock reads noon, and the
  case tables know two characters, as Unicode has them: the capital I with dot above
  (\<open>U+0130\<close>) becomes \<open>i\<close> followed by the combining dot above, the Kelvin sign (\<open>U+212A\<close>)
  becomes \<open>k\<close>; every other run outside ASCII stays as it is.
\<close>

definition env0 :: env where
  "env0 =
     \<lparr>rnd = (\<lambda>i. 0), clock = ''12:00:00'',
      unicode_lower = (\<lambda>seen run rest.
        if run = [CHR 0xC4, CHR 0xB0] then ''i'' @ [CHR 0xCC, CHR 0x87]
        else if run = [CHR 0xE2, CHR 0x84, CHR 0xAA] then ''k''
        else run)\<rparr>"

section \<open>Facts about the string operations\<close>

lemma str_in_sublist: "str_in w s = sublist w s"
  by (induction s) (simp_all add: sublist_Cons_right)

lemma str_in_decomp: "str_in w s \<longleftrightarrow> (\<exists>a b. s = a @ w @ b)"
  by (simp add: str_in_sublist sublist_def)

lemma str_in_middle: "str_in w (a @ w @ b)"
  by (auto simp add: str_in_decomp)

lemma lower_from_ascii:
  assumes "list_all ascii s"
  shows "lower_from e seen s = map lower_char s"
  using assms by (induction s arbitrary: seen) simp_all

lemma str_lower_ascii: "list_all ascii s \<Longrightarrow> str_lower e s = map lower_char s"
  by (simp add: str_lower_def lower_from_ascii)

lemma space_prefix_Some:
  assumes "space_prefix s = Some w"
  shows "w \<in> set whitespace" and "prefix w s"
  using assms by (auto simp add: space_prefix_def find_Some_iff)

lemma space_suffix_Some:
  assumes "space_suffix s = Some w"
  shows "w \<in> set whitespace" and "suffix w s"
  using assms by (auto simp add: space_suffix_def find_Some_iff)

lemma blank_Nil: "blank []"
  unfolding blank_def by (rule exI [of _ "[]"]) simp

lemma blank_single: "w \<in> set whitespace \<Longrightarrow> blank w"
  unfolding blank_def by (rule exI [of _ "[w]"]) simp

lemma blank_append:
  assumes "blank a" and "blank b"
  shows "blank (a @ b)"
proof -
  from assms obtain us vs where "set us \<subseteq> set whitespace" "a = concat us"
    "set vs \<subseteq> set whitespace" "b = concat vs"
    unfolding blank_def by blast
  then have "set (us @ vs) \<subseteq> set whitespace \<and> a @ b = concat (us @ vs)"
    by simp
  then show ?thesis
    unfolding blank_def by blast
qed

lemma str_lstrip_decomp: "\<exists>p. blank p \<and> s = p @ str_lstrip s"
proof (induction s rule: str_lstrip.induct)
  case (1 s)
  show ?case
  proof (cases "space_prefix s")
    case None
    then have "str_lstrip s = s"
      by (simp add: str_lstrip.simps [of s])
    with blank_Nil show ?thesis
      by (metis append_Nil)
  next
    case (Some w)
    from space_prefix_Some [OF Some] have w: "blank w" and split: "s = w @ drop (length w) s"
      by (auto simp add: blank_single prefix_def)
    from "1.IH" [OF Some] obtain p
      where p: "blank p" and rest: "drop (length w) s = p @ str_lstrip (drop (length w) s)"
      by blast
    have "str_lstrip s = str_lstrip (drop (length w) s)"
      using Some by (simp add: str_lstrip.simps [of s])
    with split rest have "s = (w @ p) @ str_lstrip s"
      by (metis append_assoc)
    with blank_append [OF w p] show ?thesis
      by blast
  qed
qed

lemma str_lstrip_done: "space_prefix (str_lstrip s) = None"
proof (induction s rule: str_lstrip.induct)
  case (1 s)
  show ?case
  proof (cases "space_prefix s")
    case None
    then show ?thesis
      by (simp add: str_lstrip.simps [of s])
  next
    case (Some w)
    with "1.IH" [OF Some] show ?thesis
      by (simp add: str_lstrip.simps [of s])
  qed
qed

lemma str_rstrip_decomp: "\<exists>q. blank q \<and> s = str_rstrip s @ q"
proof (induction s rule: str_rstrip.induct)
  case (1 s)
  show ?case
  proof (cases "space_suffix s")
    case None
    then have "str_rstrip s = s"
      by (simp add: str_rstrip.simps [of s])
    with blank_Nil show ?thesis
      by (metis append_Nil2)
  next
    case (Some w)
    from space_suffix_Some [OF Some] have w: "blank w"
      and split: "s = take (length s - length w) s @ w"
      by (auto simp add: blank_single suffix_def)
    from "1.IH" [OF Some] obtain q
      where q: "blank q"
        and rest: "take (length s - length w) s = str_rstrip (take (length s - length w) s) @ q"
      by blast
    have "str_rstrip s = str_rstrip (take (length s - length w) s)"
      using Some by (simp add: str_rstrip.simps [of s])
    with split rest have "s = str_rstrip s @ (q @ w)"
      by (metis append_assoc)
    with blank_append [OF q w] show ?thesis
      by blast
  qed
qed

lemma str_rstrip_done: "space_suffix (str_rstrip s) = None"
proof (induction s rule: str_rstrip.induct)
  case (1 s)
  show ?case
  proof (cases "space_suffix s")
    case None
    then show ?thesis
      by (simp add: str_rstrip.simps [of s])
  next
    case (Some w)
    with "1.IH" [OF Some] show ?thesis
      by (simp add: str_rstrip.simps [of s])
  qed
qed

lemma str_strip_decomp: "\<exists>p q. blank p \<and> blank q \<and> s = p @ str_strip s @ q"
proof -
  from str_lstrip_decomp [of s] obtain p where p: "blank p" "s = p @ str_lstrip s"
    by blast
  from str_rstrip_decomp [of "str_lstrip s"] obtain q
    where q: "blank q" "str_lstrip s = str_rstrip (str_lstrip s) @ q"
    by blast
  from p(2) q(2) have "s = p @ str_strip s @ q"
    by (simp add: str_strip_def)
  with p(1) q(1) show ?thesis
    by blast
qed

lemma str_strip_done:
  "space_prefix (str_strip s) = None \<and> space_suffix (str_strip s) = None"
proof
  show "space_suffix (str_strip s) = None"
    by (simp add: str_strip_def str_rstrip_done)
  from str_rstrip_decomp [of "str_lstrip s"] have "prefix (str_strip s) (str_lstrip s)"
    by (auto simp add: str_strip_def prefix_def)
  then have "\<not> prefix w (str_strip s)" if "prefix w (str_lstrip s) \<Longrightarrow> False" for w
    using that by (auto dest: prefix_order.trans)
  moreover have "\<not> prefix w (str_lstrip s)" if "w \<in> set whitespace" for w
    using str_lstrip_done [of s] that by (auto simp add: space_prefix_def find_None_iff)
  ultimately show "space_prefix (str_strip s) = None"
    by (auto simp add: space_prefix_def find_None_iff)
qed

lemma blank_bytes:
  assumes "blank p" and "c \<in> set p"
  shows "\<exists>w \<in> set whitespace. c \<in> set w"
  using assms unfolding blank_def by fastforce

lemma occurrence_after_prefix:
  assumes "p @ r = a @ w @ b" and "w \<noteq> []" and "hd w \<notin> set p"
  shows "\<exists>a'. r = a' @ w @ b"
proof -
  from assms(1) consider us where "p = a @ us" "us @ r = w @ b"
    | us where "p @ us = a" "r = us @ w @ b"
    by (auto simp add: append_eq_append_conv2)
  then show ?thesis
  proof cases
    case 1
    show ?thesis
    proof (cases us)
      case Nil
      with 1 have "r = [] @ w @ b" by simp
      then show ?thesis by blast
    next
      case (Cons u us')
      with 1(2) assms(2) have "hd w = u"
        by (cases w) simp_all
      with 1(1) Cons assms(3) show ?thesis
        by simp
    qed
  next
    case 2
    then show ?thesis by blast
  qed
qed

lemma occurrence_before_suffix:
  assumes "r @ q = a @ w @ b" and "w \<noteq> []" and "last w \<notin> set q"
  shows "\<exists>b'. r = a @ w @ b'"
proof -
  from assms(1) have eq: "(a @ w) @ b = r @ q"
    by simp
  from append_eq_append_conv2 [THEN iffD1, OF eq] consider us where "a @ w = r @ us" "us @ b = q"
    | us where "(a @ w) @ us = r" "b = us @ q"
    by blast
  then show ?thesis
  proof cases
    case 1
    show ?thesis
    proof (cases "us = []")
      case True
      with 1 have "r = a @ w @ []" by simp
      then show ?thesis by blast
    next
      case False
      with 1(1) assms(2) have "last w = last us"
        by (metis last_appendR)
      with False 1(2) assms(3) show ?thesis
        by auto
    qed
  next
    case 2
    then have "r = a @ w @ us" by simp
    then show ?thesis by blast
  qed
qed

lemma str_strip_keeps_occurrence:
  assumes "str_in w s" and "w \<noteq> []"
    and "\<forall>sp \<in> set whitespace. hd w \<notin> set sp \<and> last w \<notin> set sp"
  shows "str_in w (str_strip s)"
proof -
  from assms(1) obtain a b where s: "s = a @ w @ b"
    by (auto simp add: str_in_decomp)
  from str_strip_decomp [of s] obtain p q
    where p: "blank p" and q: "blank q" and split: "s = p @ str_strip s @ q"
    by blast
  have "hd w \<notin> set p"
    using blank_bytes [OF p] assms(3) by blast
  with split s assms(2) obtain a' where "str_strip s @ q = a' @ w @ b"
    using occurrence_after_prefix [of p "str_strip s @ q" a w b] by auto
  moreover have "last w \<notin> set q"
    using blank_bytes [OF q] assms(3) by blast
  ultimately obtain b' where "str_strip s = a' @ w @ b'"
    using occurrence_before_suffix [of "str_strip s" q a' w b] assms(2) by auto
  then show ?thesis
    by (simp add: str_in_middle)
qed

lemma whitespace_codes:
  "list_all (\<lambda>w. w \<noteq> [] \<and> CHR ''#'' \<notin> set w \<and> (length w = 1 \<or> list_all (\<lambda>c. \<not> ascii c) w))
     whitespace"
  by code_simp

lemma whitespace_code:
  assumes "w \<in> set whitespace"
  shows "w \<noteq> []" and "CHR ''#'' \<notin> set w" and "length w = 1 \<or> (\<forall>c \<in> set w. \<not> ascii c)"
  using assms whitespace_codes by (auto simp add: list_all_iff)

lemma hashtag_tokens_from:
  "length (filter (\<lambda>w. prefix ''#'' w) (tokens_from cur s))
     = (if prefix ''#'' cur then 1 else 0) + hash_starts (cur = []) s"
proof (induction cur s rule: tokens_from.induct)
  case (1 cur)
  show ?case by simp
next
  case (2 cur c cs)
  show ?case
  proof (cases "space_prefix (c # cs)")
    case None
    have "(if prefix ''#'' (cur @ [c]) then 1 else 0::nat)
            = (if prefix ''#'' cur then 1 else 0) + (if cur = [] \<and> c = CHR ''#'' then 1 else 0)"
      by (cases cur) auto
    with "2.IH"(1) [OF None] None show ?thesis
      by simp
  next
    case (Some w)
    with "2.IH"(2) [OF Some] show ?thesis
      by simp
  qed
qed

lemma hashtag_tokens_starts: "hashtag_tokens s = hash_starts True s"
  by (simp add: hashtag_tokens_def hashtag_tokens_from)

lemma hash_starts_fresh: "hash_starts fresh s \<le> hash_starts True s"
  by (cases s) (simp_all split: option.split)

lemma count_list_append: "count_list (xs @ ys) x = count_list xs x + count_list ys x"
  by (induction xs) simp_all

lemma count_list_drop: "count_list (drop n xs) x \<le> count_list xs x"
proof -
  have "count_list (take n xs @ drop n xs) x = count_list (take n xs) x + count_list (drop n xs) x"
    by (rule count_list_append)
  then show ?thesis by simp
qed

lemma hash_starts_count: "hash_starts fresh s \<le> count_list s (CHR ''#'')"
proof (induction fresh s rule: hash_starts.induct)
  case (1 fresh)
  show ?case by simp
next
  case (2 fresh c cs)
  show ?case
  proof (cases "space_prefix (c # cs)")
    case None
    with "2.IH"(1) [OF None] show ?thesis by simp
  next
    case (Some w)
    from "2.IH"(2) [OF Some] count_list_drop [of "length w" "c # cs" "CHR ''#''"] Some
    show ?thesis by simp
  qed
qed

lemma space_prefix_append:
  assumes "a \<noteq> []" and "b = [] \<or> ascii (last a) \<or> ascii (hd b)"
  shows "space_prefix (a @ b) = space_prefix a"
proof -
  have "prefix w (a @ b) = prefix w a" if w: "w \<in> set whitespace" for w
  proof
    assume "prefix w (a @ b)"
    then consider "prefix w a" | w' where "w = a @ w'" "prefix w' b"
      by (auto simp add: prefix_append)
    then show "prefix w a"
    proof cases
      case 1
      then show ?thesis .
    next
      case 2
      show ?thesis
      proof (cases "w' = []")
        case True
        with 2 show ?thesis by simp
      next
        case False
        with 2 assms(1) have long: "length w \<noteq> 1" and "last a \<in> set w" and "hd w' \<in> set w"
          by (cases a; cases w'; simp)+
        moreover from False 2(2) have "b \<noteq> []" and "hd b = hd w'"
          by (auto simp add: prefix_def)
        moreover from whitespace_code(3) [OF w] long have "\<forall>c \<in> set w. \<not> ascii c"
          by simp
        ultimately show ?thesis
          using assms(2) by auto
      qed
    qed
  next
    assume "prefix w a"
    then show "prefix w (a @ b)"
      by (rule prefix_prefix)
  qed
  then show ?thesis
    unfolding space_prefix_def by (intro find_cong) simp_all
qed

lemma hash_starts_append:
  assumes "b = [] \<or> a = [] \<or> ascii (last a) \<or> ascii (hd b)"
  shows "hash_starts fresh (a @ b) \<le> hash_starts fresh a + hash_starts True b"
  using assms
proof (induction fresh a rule: hash_starts.induct)
  case (1 fresh)
  show ?case
    by (simp add: hash_starts_fresh)
next
  case (2 fresh c cs)
  from "2.prems" have cut: "b = [] \<or> ascii (last (c # cs)) \<or> ascii (hd b)"
    by simp
  then have same: "space_prefix ((c # cs) @ b) = space_prefix (c # cs)"
    by (intro space_prefix_append) simp_all
  show ?case
  proof (cases "space_prefix (c # cs)")
    case None
    from cut have "b = [] \<or> cs = [] \<or> ascii (last cs) \<or> ascii (hd b)"
      by (cases cs) simp_all
    from "2.IH"(1) [OF None this] None same show ?thesis
      by simp
  next
    case (Some w)
    from space_prefix_Some(2) [OF Some] have short: "length w \<le> length (c # cs)"
      by (rule prefix_length_le)
    from cut have "b = [] \<or> drop (length w) (c # cs) = [] \<or> ascii (last (drop (length w) (c # cs)))
        \<or> ascii (hd b)"
      by (cases "drop (length w) (c # cs) = []") (simp_all add: last_drop)
    moreover have "drop (length w) (c # cs @ b) = drop (length w) (c # cs) @ b"
      using drop_append [of "length w" "c # cs" b] short by simp
    ultimately show ?thesis
      using "2.IH"(2) [OF Some] Some same by simp
  qed
qed

section \<open>Properties of the hashtag lookup\<close>

lemma hashtags_by_category:
  "get_hashtags_for_topic e s = getitem looply_hashtags (first_category (str_lower e s))"
  by (simp add: get_hashtags_for_topic_def first_category_def category_keywords_def
      occurs_any_def Let_def)

lemma first_category_cases:
  "first_category t \<in> set [''fitness'', ''food'', ''travel'', ''tech'', ''art'', ''business'',
     ''entertainment'', ''lifestyle'', ''general'']"
  by (simp add: first_category_def category_keywords_def)

lemma getitem_looply_hashtags_total:
  "c \<in> set [''fitness'', ''food'', ''travel'', ''tech'', ''art'', ''business'',
     ''entertainment'', ''lifestyle'', ''general'']
   \<Longrightarrow> \<exists>tags. map_of looply_hashtags c = Some tags \<and> getitem looply_hashtags c = Inr tags"
  by (auto simp add: getitem_def looply_hashtags_def)

lemma hashtags_of_ascii_topic:
  assumes "list_all ascii s"
  shows "get_hashtags_for_topic e s = getitem looply_hashtags (first_category (map lower_char s))"
  using assms by (simp add: hashtags_by_category str_lower_ascii)

text \<open>
  Claim C3: \<open>get_hashtags_for_topic\<close> answers \<open>workout today\<close> with exactly the fitness list
  and \<open>banana\<close> with exactly the general list, and \<open>My WORKOUT Today\<close> with the fitness list
  too; for every input it succeeds and returns the whole list the table holds for the
  first category, in the order fitness, food, travel, tech, art, business, entertainment,
  lifestyle, one of whose keywords occurs in the lowercased input, and the list of
  \<open>general\<close> when none does. The lowercased form of an ASCII input is the input with every
  capital replaced by its small letter.
\<close>

theorem hashtags_for_topic_first_category:
  "get_hashtags_for_topic e ''workout today'' = Inr fitness_hashtags
   \<and> get_hashtags_for_topic e ''banana'' = Inr general_hashtags
   \<and> get_hashtags_for_topic e ''My WORKOUT Today'' = Inr fitness_hashtags
   \<and> (\<exists>tags. map_of looply_hashtags (first_category (str_lower e s)) = Some tags
          \<and> get_hashtags_for_topic e s = Inr tags)
   \<and> (list_all ascii s \<longrightarrow> str_lower e s = map lower_char s)"
proof (intro conjI impI)
  have "list_all ascii ''workout today''"
    by code_simp
  moreover have "getitem looply_hashtags (first_category (map lower_char ''workout today''))
      = Inr fitness_hashtags"
    by code_simp
  ultimately show "get_hashtags_for_topic e ''workout today'' = Inr fitness_hashtags"
    by (simp only: hashtags_of_ascii_topic)
  have "list_all ascii ''banana''"
    by code_simp
  moreover have "getitem looply_hashtags (first_category (map lower_char ''banana''))
      = Inr general_hashtags"
    by code_simp
  ultimately show "get_hashtags_for_topic e ''banana'' = Inr general_hashtags"
    by (simp only: hashtags_of_ascii_topic)
  have "list_all ascii ''My WORKOUT Today''"
    by code_simp
  moreover have "getitem looply_hashtags (first_category (map lower_char ''My WORKOUT Today''))
      = Inr fitness_hashtags"
    by code_simp
  ultimately show "get_hashtags_for_topic e ''My WORKOUT Today'' = Inr fitness_hashtags"
    by (simp only: hashtags_of_ascii_topic)
  show "\<exists>tags. map_of looply_hashtags (first_category (str_lower e s)) = Some tags
          \<and> get_hashtags_for_topic e s = Inr tags"
    using getitem_looply_hashtags_total [OF first_category_cases [of "str_lower e s"]]
    by (simp add: hashtags_by_category)
  show "str_lower e s = map lower_char s" if "list_all ascii s"
    using that by (rule str_lower_ascii)
qed

text \<open>
  Claim C3 at \<open>Gym TIME\<close>, and the lookup at a topic whose \<open>workout\<close> is written with the Kelvin
  sign, which lowercasing turns into \<open>k\<close>.
\<close>

theorem hashtags_for_topic_first_category_witness:
  "list_all ascii ''Gym TIME''
   \<and> str_lower env0 ''Gym TIME'' = ''gym time''
   \<and> first_category (str_lower env0 ''Gym TIME'') = ''fitness''
   \<and> get_hashtags_for_topic env0 ''Gym TIME'' = Inr fitness_hashtags
   \<and> get_hashtags_for_topic env0 (''art wor'' @ [CHR 0xE2, CHR 0x84, CHR 0xAA] @ ''out'')
       = Inr fitness_hashtags"
proof -
  have ascii: "list_all ascii ''Gym TIME''"
    by code_simp
  have lowered: "map lower_char ''Gym TIME'' = ''gym time''"
    by code_simp
  have category: "first_category ''gym time'' = ''fitness''"
    by code_simp
  have row: "map_of looply_hashtags ''fitness'' = Some fitness_hashtags"
    by code_simp
  have kelvin: "get_hashtags_for_topic env0 (''art wor'' @ [CHR 0xE2, CHR 0x84, CHR 0xAA] @ ''out'')
       = Inr fitness_hashtags"
    by code_simp
  from hashtags_for_topic_first_category [of env0 "''Gym TIME''"] ascii
  have "str_lower env0 ''Gym TIME'' = map lower_char ''Gym TIME''"
    and "\<exists>tags. map_of looply_hashtags (first_category (str_lower env0 ''Gym TIME'')) = Some tags
          \<and> get_hashtags_for_topic env0 ''Gym TIME'' = Inr tags"
    by blast+
  with lowered category row kelvin ascii show ?thesis
    by simp
qed

lemma art_branch:
  assumes "str_in ''art'' (str_lower e s)"
    and "\<not> occurs_any [''fitness'', ''workout'', ''gym'', ''health'', ''food'', ''recipe'',
            ''cooking'', ''eat'', ''travel'', ''vacation'', ''trip'', ''tech'', ''code'',
            ''programming'', ''ai''] (str_lower e s)"
  shows "get_hashtags_for_topic e s = Inr art_hashtags"
  using assms
  by (simp add: get_hashtags_for_topic_def occurs_any_def getitem_def looply_hashtags_def
      art_hashtags_def)

text \<open>
  Claim C10, as amended: an input whose lowercased form contains \<open>art\<close> and none of the
  keywords of the four categories tested before art (fitness, food, travel, tech) gets the
  art list; \<open>startup\<close> is such an input, in small letters or capitals, so it gets the art
  list and not the business list, although it is a business keyword.
\<close>

theorem startup_gets_art_hashtags:
  "(str_in ''art'' (str_lower e s)
      \<and> \<not> occurs_any [''fitness'', ''workout'', ''gym'', ''health'', ''food'', ''recipe'',
            ''cooking'', ''eat'', ''travel'', ''vacation'', ''trip'', ''tech'', ''code'',
            ''programming'', ''ai''] (str_lower e s)
      \<longrightarrow> get_hashtags_for_topic e s = Inr art_hashtags)
   \<and> get_hashtags_for_topic e ''startup'' = Inr art_hashtags
   \<and> get_hashtags_for_topic e ''startup'' \<noteq> Inr business_hashtags
   \<and> get_hashtags_for_topic e ''StartUp'' = Inr art_hashtags"
proof (intro conjI impI)
  assume "str_in ''art'' (str_lower e s)
      \<and> \<not> occurs_any [''fitness'', ''workout'', ''gym'', ''health'', ''food'', ''recipe'',
            ''cooking'', ''eat'', ''travel'', ''vacation'', ''trip'', ''tech'', ''code'',
            ''programming'', ''ai''] (str_lower e s)"
  then show "get_hashtags_for_topic e s = Inr art_hashtags"
    by (simp add: art_branch)
next
  have "list_all ascii ''startup''"
    by code_simp
  moreover have "getitem looply_hashtags (first_category (map lower_char ''startup''))
      = Inr art_hashtags"
    by code_simp
  ultimately show art: "get_hashtags_for_topic e ''startup'' = Inr art_hashtags"
    by (simp only: hashtags_of_ascii_topic)
  then show "get_hashtags_for_topic e ''startup'' \<noteq> Inr business_hashtags"
    by (simp add: art_hashtags_def business_hashtags_def)
  have "list_all ascii ''StartUp''"
    by code_simp
  moreover have "getitem looply_hashtags (first_category (map lower_char ''StartUp''))
      = Inr art_hashtags"
    by code_simp
  ultimately show "get_hashtags_for_topic e ''StartUp'' = Inr art_hashtags"
    by (simp only: hashtags_of_ascii_topic)
qed

text \<open>The amended claim at the input \<open>PARTY\<close>, whose two hypotheses hold.\<close>

theorem startup_gets_art_hashtags_witness:
  "str_in ''art'' (str_lower env0 ''PARTY'')
   \<and> \<not> occurs_any [''fitness'', ''workout'', ''gym'', ''health'', ''food'', ''recipe'',
            ''cooking'', ''eat'', ''travel'', ''vacation'', ''trip'', ''tech'', ''code'',
            ''programming'', ''ai''] (str_lower env0 ''PARTY'')
   \<and> get_hashtags_for_topic env0 ''PARTY'' = Inr art_hashtags"
proof -
  have h: "str_in ''art'' (str_lower env0 ''PARTY'')
   \<and> \<not> occurs_any [''fitness'', ''workout'', ''gym'', ''health'', ''food'', ''recipe'',
            ''cooking'', ''eat'', ''travel'', ''vacation'', ''trip'', ''tech'', ''code'',
            ''programming'', ''ai''] (str_lower env0 ''PARTY'')"
    by code_simp
  from startup_gets_art_hashtags [of env0 "''PARTY''"] h show ?thesis
    by blast
qed

text \<open>
  Claim C10 as it was stated fails: \<open>heartbeat\<close> contains \<open>art\<close> inside a longer word, but
  it also contains the food keyword \<open>eat\<close>, and the food test comes first.
\<close>

theorem art_inside_word_counterexample:
  "str_in ''art'' (str_lower env0 ''heartbeat'')
   \<and> get_hashtags_for_topic env0 ''heartbeat'' = Inr food_hashtags
   \<and> get_hashtags_for_topic env0 ''heartbeat'' \<noteq> Inr art_hashtags"
  by code_simp

section \<open>Properties of the captions\<close>

lemma shapes_casual: "list_all caption_shape caption_templates"
  by code_simp

lemma shapes_creative:
  "list_all caption_shape
     (map (\<lambda>tpl. [CHR 0xF0, CHR 0x9F, CHR 0x8E, CHR 0xA8] @ '' '' @ tpl) caption_templates)"
  by code_simp

lemma shapes_professional:
  "list_all caption_shape
     (map (\<lambda>tpl. str_replace
                     (str_replace tpl ''vibes hitting different'' ''insights resonating strongly'')
                     ''Real talk'' ''Key insight'') caption_templates)"
  by code_simp

lemma and_then_Inr [simp]: "and_then (Inr x) f = f x"
  by (simp add: and_then_def)

lemma and_then_Inl [simp]: "and_then (Inl x) f = Inl x"
  by (simp add: and_then_def)

lemma and_then_assoc: "and_then (and_then r f) g = and_then r (\<lambda>x. and_then (f x) g)"
  by (cases r) simp_all

lemma format_literal:
  assumes "plain_text a"
  shows "format_from kw None (a @ CHR ''{'' # rest)
           = and_then (format_from kw None (CHR ''{'' # rest)) (\<lambda>r. Inr (a @ r))"
  using assms
proof (induction a)
  case Nil
  show ?case by (cases "format_from kw None (CHR ''{'' # rest)") simp_all
next
  case (Cons c a)
  then have c: "c \<noteq> CHR ''{''" "c \<noteq> CHR ''}''" and a: "plain_text a"
    by (simp_all add: plain_text_def)
  obtain d cs where dcs: "a @ CHR ''{'' # rest = d # cs"
    by (cases a) simp_all
  have "format_from kw None ((c # a) @ CHR ''{'' # rest)
          = and_then (format_from kw None (a @ CHR ''{'' # rest)) (\<lambda>r. Inr (c # r))"
    using c by (simp add: dcs)
  also have "\<dots> = and_then (format_from kw None (CHR ''{'' # rest)) (\<lambda>r. Inr ((c # a) @ r))"
    by (simp add: Cons.IH [OF a] and_then_assoc)
  finally show ?case .
qed

lemma format_caption_shape:
  assumes "caption_shape p"
  shows "str_format p [(''topic'', t), (''hashtags'', h)]
           = Inr (template_head p @ t @ template_middle p @ h)"
proof -
  let ?kw = "[(''topic'', t), (''hashtags'', h)]"
  from assms have p: "p = template_head p @ ''{topic}'' @ template_middle p @ ''{hashtags}''"
    and a: "plain_text (template_head p)" and b: "plain_text (template_middle p)"
    by (simp_all add: caption_shape_def)
  have last: "format_from ?kw None ''{hashtags}'' = Inr h"
    by simp
  have "format_from ?kw None (template_middle p @ ''{hashtags}'') = Inr (template_middle p @ h)"
    using format_literal [OF b, of ?kw "''hashtags}''"] last by simp
  then have "format_from ?kw None (''{topic}'' @ template_middle p @ ''{hashtags}'')
          = Inr (t @ template_middle p @ h)"
    by simp
  then have "format_from ?kw None (template_head p @ ''{topic}'' @ template_middle p @ ''{hashtags}'')
          = Inr (template_head p @ t @ template_middle p @ h)"
    using format_literal [OF a, of ?kw "''topic}'' @ template_middle p @ ''{hashtags}''"] by simp
  with p show ?thesis
    by (simp add: str_format_def)
qed

lemma random_choice_member:
  assumes "xs \<noteq> []"
  shows "\<exists>x \<in> set xs. random_choice e xs = Inr x"
  using assms by (simp add: random_choice_def)

lemma caption_templates_nonempty: "caption_templates \<noteq> []"
  by (simp add: caption_templates_def)

lemma get_hashtags_for_topic_row:
  "\<exists>c tags. (c, tags) \<in> set looply_hashtags \<and> get_hashtags_for_topic e s = Inr tags"
  using getitem_looply_hashtags_total [OF first_category_cases [of "str_lower e s"]]
  by (auto simp add: hashtags_by_category dest: map_of_SomeD)

lemma five_hashes_per_row:
  "list_all (\<lambda>row. count_list (str_join '' '' (take 5 (snd row))) (CHR ''#'') = 5) looply_hashtags"
  by code_simp

lemma plain_text_no_hash: "plain_text s \<Longrightarrow> count_list s (CHR ''#'') = 0"
  by (induction s) (simp_all add: plain_text_def)

lemma generate_caption_result:
  "\<exists>p row. caption_shape p \<and> row \<in> set looply_hashtags
      \<and> get_hashtags_for_topic e topic = Inr (snd row)
      \<and> generate_caption e topic style
          = Inr (template_head p @ topic @ template_middle p @ str_join '' '' (take 5 (snd row)))"
proof -
  from random_choice_member [OF caption_templates_nonempty] obtain tpl
    where tpl: "tpl \<in> set caption_templates" and choice: "random_choice e caption_templates = Inr tpl"
    by blast
  from get_hashtags_for_topic_row [of e topic] obtain c tags
    where row: "(c, tags) \<in> set looply_hashtags" and tags: "get_hashtags_for_topic e topic = Inr tags"
    by blast
  define p where "p =
     (if style = ''professional''
      then str_replace
             (str_replace tpl ''vibes hitting different'' ''insights resonating strongly'')
             ''Real talk'' ''Key insight''
      else if style = ''creative''
      then [CHR 0xF0, CHR 0x9F, CHR 0x8E, CHR 0xA8] @ '' '' @ tpl
      else tpl)"
  have shape: "caption_shape p"
    using tpl shapes_casual shapes_creative shapes_professional
    by (simp add: p_def list_all_iff)
  have "generate_caption e topic style
          = str_format p [(''topic'', topic), (''hashtags'', str_join '' '' (take 5 tags))]"
    by (simp add: generate_caption_def choice tags p_def)
  with shape row tags show ?thesis
    by (metis format_caption_shape snd_conv)
qed

lemma hash_starts_plain: "plain_text s \<Longrightarrow> hash_starts fresh s = 0"
  using hash_starts_count [of fresh s] by (simp add: plain_text_no_hash)

lemma caption_hashtag_tokens:
  assumes "caption_shape p" and "count_list tags (CHR ''#'') = 5"
  shows "hashtag_tokens (template_head p @ topic @ template_middle p @ tags)
           \<le> 5 + hashtag_tokens topic"
proof -
  let ?h = "template_head p" and ?m = "template_middle p"
  from assms(1) have plain: "plain_text ?h" "plain_text ?m"
    and head: "?h \<noteq> []" "ascii (last ?h)"
    and middle: "?m \<noteq> []" "ascii (hd ?m)" "ascii (last ?m)"
    by (simp_all add: caption_shape_def)
  have "hash_starts True (?h @ topic @ ?m @ tags)
          \<le> hash_starts True ?h + hash_starts True (topic @ ?m @ tags)"
    using head by (intro hash_starts_append) simp
  also have "hash_starts True (topic @ ?m @ tags)
          \<le> hash_starts True topic + hash_starts True (?m @ tags)"
    using middle by (intro hash_starts_append) simp
  also have "hash_starts True (?m @ tags) \<le> hash_starts True ?m + hash_starts True tags"
    using middle by (intro hash_starts_append) simp
  also have "hash_starts True tags \<le> 5"
    using hash_starts_count [of True tags] assms(2) by simp
  finally have "hash_starts True (?h @ topic @ ?m @ tags) \<le> 5 + hash_starts True topic"
    using plain by (simp add: hash_starts_plain)
  then show ?thesis
    by (simp add: hashtag_tokens_starts)
qed

text \<open>
  Claim C2, as amended: for every topic, every style (so for \<open>casual\<close>, \<open>professional\<close> and
  \<open>creative\<close>) and every draw of the template, \<open>generate_caption\<close> returns a string that
  contains the topic as it was given and has at most five hashtag tokens more than the
  topic has itself; so it has at most five when no token of the topic starts with \<open>#\<close>.
\<close>

theorem caption_has_topic_and_five_hashtags:
  "\<exists>caption. generate_caption e topic style = Inr caption
      \<and> str_in topic caption
      \<and> hashtag_tokens caption \<le> 5 + hashtag_tokens topic
      \<and> (hashtag_tokens topic = 0 \<longrightarrow> hashtag_tokens caption \<le> 5)"
proof -
  from generate_caption_result [of e topic style] obtain p row
    where shape: "caption_shape p" and row: "row \<in> set looply_hashtags"
      and result: "generate_caption e topic style
          = Inr (template_head p @ topic @ template_middle p @ str_join '' '' (take 5 (snd row)))"
    by blast
  let ?caption = "template_head p @ topic @ template_middle p @ str_join '' '' (take 5 (snd row))"
  have five: "count_list (str_join '' '' (take 5 (snd row))) (CHR ''#'') = 5"
    using five_hashes_per_row row by (simp add: list_all_iff)
  from caption_hashtag_tokens [OF shape five] have bound: "hashtag_tokens ?caption \<le> 5 + hashtag_tokens topic" .
  moreover have "str_in topic ?caption"
    by (rule str_in_middle)
  ultimately show ?thesis
    using result by simp
qed

text \<open>
  The amended claim at a topic that holds \<open>#\<close> but no token starting with it, in the
  professional style.
\<close>

theorem caption_has_topic_and_five_hashtags_witness:
  "hashtag_tokens ''c# and a#b'' = 0
   \<and> (\<exists>caption. generate_caption env0 ''c# and a#b'' ''professional'' = Inr caption
         \<and> str_in ''c# and a#b'' caption \<and> hashtag_tokens caption \<le> 5)"
proof -
  have "hashtag_tokens ''c# and a#b'' = 0"
    by code_simp
  with caption_has_topic_and_five_hashtags [of env0 "''c# and a#b''" "''professional''"]
  show ?thesis
    by auto
qed

text \<open>
  Claim C2 as it was stated fails: the topic \<open>#x\<close> is itself a hashtag token, and the caption
  made for it holds that token and the five hashtags of the general category, six in all.
\<close>

theorem caption_hashtag_in_topic_counterexample:
  "\<not> isl (generate_caption env0 ''#x'' ''casual'')
   \<and> str_in ''#x'' (projr (generate_caption env0 ''#x'' ''casual''))
   \<and> hashtag_tokens (projr (generate_caption env0 ''#x'' ''casual'')) = 6"
  by code_simp

section \<open>Properties of the memory\<close>

text \<open>
  Claim C5: after \<open>learn k v\<close>, whatever the memory held before, \<open>recall k\<close> returns \<open>v\<close>, a
  string containing \<open>v\<close>; \<open>learn\<close> replaces the entry of \<open>k\<close> and its confirmation contains
  \<open>k\<close>; \<open>recall\<close> of a key the memory does not hold, as every key of a fresh responder,
  returns the fixed default string.
\<close>

theorem learn_then_recall:
  "recall (snd (learn self k v)) k = v
   \<and> str_in v (recall (snd (learn self k v)) k)
   \<and> memory (snd (learn self k v)) = (memory self)(k \<mapsto> v)
   \<and> str_in k (fst (learn self k v))
   \<and> (memory self k = None \<longrightarrow> recall self k = recall_default)
   \<and> recall (LooplyLIA nm) k = recall_default"
proof (intro conjI impI)
  show stored: "recall (snd (learn self k v)) k = v"
    by (simp add: recall_def learn_def)
  have "str_in v ([] @ v @ [])"
    by (rule str_in_middle)
  then show "str_in v (recall (snd (learn self k v)) k)"
    by (simp add: stored)
  show "memory (snd (learn self k v)) = (memory self)(k \<mapsto> v)"
    by (simp add: learn_def)
  have "str_in k (([CHR 0xE2, CHR 0x9C, CHR 0x85] @ '' Learned '') @ k
          @ ''. I'll remember this for our future conversations!'')"
    by (rule str_in_middle)
  then show "str_in k (fst (learn self k v))"
    by (simp add: learn_def)
  show "recall self k = recall_default" if "memory self k = None"
    using that by (simp add: recall_def)
  show "recall (LooplyLIA nm) k = recall_default"
    by (simp add: recall_def LooplyLIA_def)
qed

text \<open>Claim C5 on a fresh responder: an absent key, then the same key learned twice.\<close>

theorem learn_then_recall_witness:
  "memory (LooplyLIA ''LIA'') ''niche'' = None
   \<and> recall (LooplyLIA ''LIA'') ''niche'' = recall_default
   \<and> recall (snd (learn (snd (learn (LooplyLIA ''LIA'') ''niche'' ''food'')) ''niche'' ''fitness'')) ''niche''
       = ''fitness''"
proof -
  have "memory (LooplyLIA ''LIA'') ''niche'' = None"
    by (simp add: LooplyLIA_def)
  with learn_then_recall [of "LooplyLIA ''LIA''" "''niche''" "''food''" "''LIA''"]
    learn_then_recall [of "snd (learn (LooplyLIA ''LIA'') ''niche'' ''food'')" "''niche''" "''fitness''" "''LIA''"]
  show ?thesis
    by blast
qed

section \<open>Properties of the dispatcher\<close>

lemma chat_dispatch: "chat e self u = respond e self u"
  by (simp add: chat_def respond_def normalize_utterance_def classify_def intent_keywords_def
      occurs_any_def Let_def)

lemma reply_of_and_then: "reply_of (and_then x f) = and_then x (\<lambda>v. reply_of (f v))"
  by (cases x) (simp_all add: reply_of_def)

lemma reply_of_Inr [simp]: "reply_of (Inr (r, s)) = Inr r"
  by (simp add: reply_of_def)

lemma split_from_nonempty: "split_from sep s \<noteq> []"
  by (cases s) (simp_all split: list.split)

lemma text_after_total:
  assumes "sep \<noteq> []"
  shows "\<exists>piece. text_after s sep = Inr piece"
  using assms by (simp add: text_after_def str_split_def last_item_def split_from_nonempty)

lemma generate_caption_total: "\<exists>caption. generate_caption e topic style = Inr caption"
  using generate_caption_result [of e topic style] by blast

lemma get_hashtags_for_topic_total: "\<exists>tags. get_hashtags_for_topic e s = Inr tags"
  using get_hashtags_for_topic_row [of e s] by blast

lemma length_content_ideas: "length content_ideas = 20"
  by (simp add: content_ideas_def)

lemma length_trends: "length trends = 6"
  by (simp add: trends_def)

lemma get_content_ideas_total: "\<exists>ideas. get_content_ideas e niche = Inr ideas"
  by (simp add: get_content_ideas_def random_sample_def length_content_ideas)

lemma analyze_trends_total: "\<exists>r. analyze_trends e = Inr r"
  by (simp add: analyze_trends_def random_sample_def length_trends)

text \<open>The names that \<open>get_engagement_tips\<close> passes to \<open>title\<close> are ASCII.\<close>

lemma strategy_names_ascii: "list_all (\<lambda>entry. list_all ascii (fst entry)) engagement_strategies"
  by code_simp

lemma general_is_no_strategy: "''general'' \<notin> set (map fst engagement_strategies)"
  by (simp add: engagement_strategies_def)

lemma get_engagement_tips_total: "\<exists>r. get_engagement_tips ''general'' = Inr r"
  by (simp add: get_engagement_tips_def general_is_no_strategy Let_def del: set_map)

lemma greetings_nonempty: "greetings \<noteq> []"
  by (simp add: greetings_def)

lemma social_jokes_nonempty: "social_jokes \<noteq> []"
  by (simp add: social_jokes_def)

lemma defaults_nonempty: "defaults \<noteq> []"
  by (simp add: defaults_def)

lemma topic_of_caption_total:
  "\<exists>topic. (if str_in ''about'' t then text_after t ''about''
             else if str_in ''for'' t then text_after t ''for''
             else Inr ''your experience'') = Inr topic"
  using text_after_total [of "''about''" t] text_after_total [of "''for''" t] by auto

lemma niche_total:
  "\<exists>niche. (if str_in ''for'' t then text_after t ''for'' else Inr ''general'') = Inr niche"
  using text_after_total [of "''for''" t] by auto

text \<open>Every branch returns a reply, and only the upgrade branch changes the object.\<close>

lemma intent_response_result:
  "\<exists>reply. intent_response i e self t
      = Inr (reply, if i = Upgrade
                    then self\<lparr>intelligence_level := intelligence_level self + 1\<rparr> else self)"
proof (cases i)
  case Greeting
  with random_choice_member [OF greetings_nonempty, of e] show ?thesis by auto
next
  case Joke
  with random_choice_member [OF social_jokes_nonempty, of e] show ?thesis by auto
next
  case Caption
  from topic_of_caption_total [of t] obtain topic
    where "(if str_in ''about'' t then text_after t ''about''
             else if str_in ''for'' t then text_after t ''for''
             else Inr ''your experience'') = Inr topic" by blast
  moreover from generate_caption_total obtain caption
    where "generate_caption e topic ''casual'' = Inr caption" by blast
  ultimately show ?thesis using Caption by simp
next
  case Hashtag
  define topic where "topic = (if str_strip (str_replace t ''hashtag'' '''') = [] then ''general content''
                    else str_strip (str_replace t ''hashtag'' ''''))"
  from get_hashtags_for_topic_total obtain tags
    where "get_hashtags_for_topic e topic = Inr tags" by blast
  then show ?thesis using Hashtag by (simp add: Let_def topic_def)
next
  case ContentIdea
  from niche_total [of t] obtain niche
    where "(if str_in ''for'' t then text_after t ''for'' else Inr ''general'') = Inr niche"
    by blast
  moreover from get_content_ideas_total obtain ideas
    where "get_content_ideas e niche = Inr ideas" by blast
  ultimately show ?thesis using ContentIdea by simp
next
  case Engagement
  with get_engagement_tips_total show ?thesis by auto
next
  case Trend
  with analyze_trends_total [of e] show ?thesis by auto
next
  case Fallback
  with random_choice_member [OF defaults_nonempty, of e] show ?thesis by auto
qed simp_all

lemma intent_response_reply_frame:
  assumes "i \<noteq> Upgrade"
  shows "reply_of (intent_response i e self t) = reply_of (intent_response i e self' t)"
  using assms by (cases i) (simp_all add: reply_of_and_then Let_def)

lemma classify_first_match:
  assumes "k < length intent_keywords"
    and "occurs_any (snd (intent_keywords ! k)) t"
    and "\<forall>m < k. \<not> occurs_any (snd (intent_keywords ! m)) t"
  shows "classify t = fst (intent_keywords ! k)"
proof -
  have "find (\<lambda>entry. occurs_any (snd entry) t) intent_keywords = Some (intent_keywords ! k)"
    using assms by (auto simp add: find_Some_iff)
  then show ?thesis
    by (simp add: classify_def)
qed

lemma classify_no_match:
  assumes "\<forall>k < length intent_keywords. \<not> occurs_any (snd (intent_keywords ! k)) t"
  shows "classify t = Fallback"
proof -
  have "find (\<lambda>entry. occurs_any (snd entry) t) intent_keywords = None"
    using assms by (auto simp add: find_None_iff in_set_conv_nth)
  then show ?thesis
    by (simp add: classify_def)
qed

text \<open>Reaching the upgrade predicate: \<open>upgrade\<close> occurs, and no keyword of the ten
  predicates in front of it does.\<close>

lemma upgrade_reached_iff:
  "classify t = Upgrade \<longleftrightarrow>
     str_in ''upgrade'' t
     \<and> \<not> occurs_any (concat (map snd (take 10 intent_keywords))) t"
  by (simp add: classify_def intent_keywords_def occurs_any_def)

lemma chat_result:
  "\<exists>reply. chat e self u
      = Inr (reply, if classify (normalize_utterance e u) = Upgrade
                    then self\<lparr>intelligence_level := intelligence_level self + 1\<rparr> else self)"
  using intent_response_result [of "classify (normalize_utterance e u)" e self
      "normalize_utterance e u"]
  by (simp add: chat_dispatch respond_def Let_def)

lemma chats_upgrades:
  assumes "list_all (\<lambda>call. classify (normalize_utterance (fst call) (snd call)) = Upgrade) calls"
  shows "\<exists>replies final. chats self calls = Inr (replies, final)
           \<and> intelligence_level final = intelligence_level self + int (length calls)"
  using assms
proof (induction calls arbitrary: self)
  case Nil
  show ?case by simp
next
  case (Cons call calls)
  obtain e u where call: "call = (e, u)"
    by (cases call)
  with Cons.prems have up: "classify (normalize_utterance e u) = Upgrade"
    and rest: "list_all (\<lambda>call. classify (normalize_utterance (fst call) (snd call)) = Upgrade) calls"
    by simp_all
  let ?next = "self\<lparr>intelligence_level := intelligence_level self + 1\<rparr>"
  from chat_result [of e self u] up obtain reply
    where first: "chat e self u = Inr (reply, ?next)"
    by auto
  from Cons.IH [OF rest, of ?next] obtain replies final
    where later: "chats ?next calls = Inr (replies, final)"
      and level: "intelligence_level final = intelligence_level ?next + int (length calls)"
    by blast
  have "chats self (call # calls) = Inr (reply # replies, final)"
    by (simp add: call first later)
  moreover have "intelligence_level final = intelligence_level self + int (length (call # calls))"
    using level by simp
  ultimately show ?case
    by blast
qed

text \<open>
  Claim C1: \<open>chat\<close> lowercases and trims the utterance and then answers as the specification's
  \<open>respond\<close> does: with the response of the first entry of the ordered predicate table
  (greeting, time, joke, caption, hashtag, content idea, engagement, trend, analytics,
  learn/remember, upgrade, help) one of whose keywords occurs in the normalized utterance,
  and with the fallback response when no entry matches. An entry that matches after an
  earlier matching entry therefore never answers. The normalized utterance is the
  lowercased one without the whitespace characters at its two ends: what is cut off is
  blank and what remains neither starts nor ends with a whitespace character; the
  lowercased form of an ASCII utterance has each capital replaced by its small letter.
\<close>

theorem chat_first_match_wins:
  "chat e self u = respond e self u
   \<and> (\<forall>k < length intent_keywords.
         occurs_any (snd (intent_keywords ! k)) (normalize_utterance e u)
         \<and> (\<forall>m < k. \<not> occurs_any (snd (intent_keywords ! m)) (normalize_utterance e u))
         \<longrightarrow> chat e self u
               = intent_response (fst (intent_keywords ! k)) e self (normalize_utterance e u))
   \<and> ((\<forall>k < length intent_keywords.
          \<not> occurs_any (snd (intent_keywords ! k)) (normalize_utterance e u))
         \<longrightarrow> chat e self u = intent_response Fallback e self (normalize_utterance e u))
   \<and> map fst intent_keywords
        = [Greeting, TimeQuery, Joke, Caption, Hashtag, ContentIdea, Engagement, Trend,
           Analytics, LearnRemember, Upgrade, Help]
   \<and> (\<exists>p q. blank p \<and> blank q \<and> str_lower e u = p @ normalize_utterance e u @ q)
   \<and> space_prefix (normalize_utterance e u) = None
   \<and> space_suffix (normalize_utterance e u) = None
   \<and> (list_all ascii u \<longrightarrow> str_lower e u = map lower_char u)"
proof (intro conjI allI impI)
  show "chat e self u = respond e self u"
    by (rule chat_dispatch)
next
  fix k
  assume "k < length intent_keywords"
    and "occurs_any (snd (intent_keywords ! k)) (normalize_utterance e u)
         \<and> (\<forall>m < k. \<not> occurs_any (snd (intent_keywords ! m)) (normalize_utterance e u))"
  then have "classify (normalize_utterance e u) = fst (intent_keywords ! k)"
    by (simp add: classify_first_match)
  then show "chat e self u
      = intent_response (fst (intent_keywords ! k)) e self (normalize_utterance e u)"
    by (simp add: chat_dispatch respond_def Let_def)
next
  assume "\<forall>k < length intent_keywords.
      \<not> occurs_any (snd (intent_keywords ! k)) (normalize_utterance e u)"
  then have "classify (normalize_utterance e u) = Fallback"
    by (rule classify_no_match)
  then show "chat e self u = intent_response Fallback e self (normalize_utterance e u)"
    by (simp add: chat_dispatch respond_def Let_def)
next
  show "map fst intent_keywords
        = [Greeting, TimeQuery, Joke, Caption, Hashtag, ContentIdea, Engagement, Trend,
           Analytics, LearnRemember, Upgrade, Help]"
    by (simp add: intent_keywords_def)
next
  show "\<exists>p q. blank p \<and> blank q \<and> str_lower e u = p @ normalize_utterance e u @ q"
    using str_strip_decomp [of "str_lower e u"] by (simp add: normalize_utterance_def)
next
  show "space_prefix (normalize_utterance e u) = None"
    using str_strip_done [of "str_lower e u"] by (simp add: normalize_utterance_def)
next
  show "space_suffix (normalize_utterance e u) = None"
    using str_strip_done [of "str_lower e u"] by (simp add: normalize_utterance_def)
next
  assume "list_all ascii u"
  then show "str_lower e u = map lower_char u"
    by (rule str_lower_ascii)
qed

text \<open>
  Claim C1 at an utterance in capitals between a no-break space and an em space, which
  matches the time predicate and the later joke predicate, and at one that matches
  nothing.
\<close>

theorem chat_first_match_wins_witness:
  "normalize_utterance env0
       ([CHR 0xC2, CHR 0xA0] @ ''  Tell me a JOKE about time '' @ [CHR 0xE2, CHR 0x80, CHR 0x83])
     = ''tell me a joke about time''
   \<and> occurs_any [''time''] ''tell me a joke about time''
   \<and> occurs_any [''joke''] ''tell me a joke about time''
   \<and> \<not> occurs_any [''hello'', ''hi'', ''hey''] ''tell me a joke about time''
   \<and> chat env0 (LooplyLIA ''LIA'')
         ([CHR 0xC2, CHR 0xA0] @ ''  Tell me a JOKE about time '' @ [CHR 0xE2, CHR 0x80, CHR 0x83])
       = intent_response TimeQuery env0 (LooplyLIA ''LIA'') ''tell me a joke about time''
   \<and> list_all ascii ''XyZ''
   \<and> str_lower env0 ''XyZ'' = ''xyz''
   \<and> chat env0 (LooplyLIA ''LIA'') ''XyZ''
       = intent_response Fallback env0 (LooplyLIA ''LIA'') ''xyz''"
proof -
  let ?u = "[CHR 0xC2, CHR 0xA0] @ ''  Tell me a JOKE about time '' @ [CHR 0xE2, CHR 0x80, CHR 0x83]"
  have norm: "normalize_utterance env0 ?u = ''tell me a joke about time''"
    by code_simp
  have time: "occurs_any [''time''] ''tell me a joke about time''"
    and joke: "occurs_any [''joke''] ''tell me a joke about time''"
    and greet: "\<not> occurs_any [''hello'', ''hi'', ''hey''] ''tell me a joke about time''"
    by (simp_all add: occurs_any_def)
  have entries: "1 < length intent_keywords" "fst (intent_keywords ! 1) = TimeQuery"
    by (simp_all add: intent_keywords_def)
  have first: "occurs_any (snd (intent_keywords ! 1)) (normalize_utterance env0 ?u)
         \<and> (\<forall>m < 1. \<not> occurs_any (snd (intent_keywords ! m)) (normalize_utterance env0 ?u))"
    unfolding norm using time greet by (simp add: intent_keywords_def)
  from chat_first_match_wins [of env0 "LooplyLIA ''LIA''" ?u] first entries
  have "chat env0 (LooplyLIA ''LIA'') ?u
       = intent_response TimeQuery env0 (LooplyLIA ''LIA'') (normalize_utterance env0 ?u)"
    by metis
  then have timed: "chat env0 (LooplyLIA ''LIA'') ?u
       = intent_response TimeQuery env0 (LooplyLIA ''LIA'') ''tell me a joke about time''"
    by (simp only: norm)
  have ascii: "list_all ascii ''XyZ''"
    by code_simp
  have lowered: "map lower_char ''XyZ'' = ''xyz''"
    by code_simp
  have norm2: "normalize_utterance env0 ''XyZ'' = ''xyz''"
    by code_simp
  have none: "\<forall>k < length intent_keywords.
      \<not> occurs_any (snd (intent_keywords ! k)) (normalize_utterance env0 ''XyZ'')"
    unfolding norm2
    by (simp add: intent_keywords_def occurs_any_def All_less_Suc less_Suc_eq numeral_eq_Suc)
  from chat_first_match_wins [of env0 "LooplyLIA ''LIA''" "''XyZ''"] none ascii
  have "chat env0 (LooplyLIA ''LIA'') ''XyZ''
       = intent_response Fallback env0 (LooplyLIA ''LIA'') (normalize_utterance env0 ''XyZ'')"
    and "str_lower env0 ''XyZ'' = map lower_char ''XyZ''"
    by blast+
  then have "chat env0 (LooplyLIA ''LIA'') ''XyZ''
       = intent_response Fallback env0 (LooplyLIA ''LIA'') ''xyz''"
    and "str_lower env0 ''XyZ'' = ''xyz''"
    by (simp_all only: norm2 lowered)
  with norm time joke greet timed ascii show ?thesis
    by blast
qed

text \<open>
  Claim C4: for every utterance \<open>chat\<close> returns a reply and raises nothing, although it draws
  from lists, samples, subscripts the hashtag table, splits and formats; the empty
  utterance matches no predicate and is answered by one of the three fallback strings.
  \<open>learn\<close> and \<open>recall\<close> hold no operation that can raise on strings: \<open>learn\<close> always returns
  its confirmation and the updated object, \<open>recall\<close> the stored value or the default.
\<close>

theorem chat_never_raises:
  "(\<exists>reply self'. chat e self u = Inr (reply, self'))
   \<and> (\<exists>d. d \<in> set defaults \<and> chat e self '''' = Inr (d, self))
   \<and> length defaults = 3
   \<and> classify (normalize_utterance e '''') = Fallback
   \<and> (\<exists>confirmation self'. learn self k v = (confirmation, self'))
   \<and> (recall self k = recall_default \<or> memory self k = Some (recall self k))"
proof (intro conjI)
  show "\<exists>reply self'. chat e self u = Inr (reply, self')"
    using chat_result [of e self u] by blast
  have "str_lower e '''' = ''''"
    by (simp add: str_lower_def)
  moreover have "str_strip '''' = ''''"
    by code_simp
  ultimately have empty: "normalize_utterance e '''' = ''''"
    by (simp add: normalize_utterance_def)
  have fallback: "classify '''' = Fallback"
    by (simp add: classify_def intent_keywords_def occurs_any_def)
  then show "classify (normalize_utterance e '''') = Fallback"
    by (simp add: empty)
  from random_choice_member [OF defaults_nonempty, of e] obtain d
    where "d \<in> set defaults" and "random_choice e defaults = Inr d"
    by blast
  then show "\<exists>d. d \<in> set defaults \<and> chat e self '''' = Inr (d, self)"
    by (auto simp add: chat_dispatch respond_def Let_def fallback empty)
  show "length defaults = 3"
    by (simp add: defaults_def)
  show "\<exists>confirmation self'. learn self k v = (confirmation, self')"
    by (simp add: learn_def)
  show "recall self k = recall_default \<or> memory self k = Some (recall self k)"
    by (simp add: recall_def split: option.split)
qed

text \<open>
  Claim C6: \<open>chat\<close> returns the object with the memory it was given, for every utterance;
  an utterance that reaches the learn/remember predicate gets the fixed instruction and
  the object comes back unchanged.
\<close>

theorem chat_leaves_memory:
  "(\<exists>reply self'. chat e self u = Inr (reply, self') \<and> memory self' = memory self)
   \<and> (classify (normalize_utterance e u) = LearnRemember
        \<longrightarrow> chat e self u = Inr (learn_hint, self))"
proof (intro conjI impI)
  from chat_result [of e self u] obtain reply
    where "chat e self u
      = Inr (reply, if classify (normalize_utterance e u) = Upgrade
                    then self\<lparr>intelligence_level := intelligence_level self + 1\<rparr> else self)"
    by blast
  moreover have "memory (if classify (normalize_utterance e u) = Upgrade
                    then self\<lparr>intelligence_level := intelligence_level self + 1\<rparr> else self)
                 = memory self"
    by simp
  ultimately show "\<exists>reply self'. chat e self u = Inr (reply, self') \<and> memory self' = memory self"
    by blast
  show "chat e self u = Inr (learn_hint, self)"
    if "classify (normalize_utterance e u) = LearnRemember"
    using that by (simp add: chat_dispatch respond_def Let_def)
qed

text \<open>Claim C6 at \<open>Learn my niche: fitness\<close>, on a responder that has learned something.\<close>

theorem chat_leaves_memory_witness:
  "classify (normalize_utterance env0 ''Learn my niche: fitness'') = LearnRemember
   \<and> chat env0 (snd (learn (LooplyLIA ''LIA'') ''k'' ''v'')) ''Learn my niche: fitness''
       = Inr (learn_hint, snd (learn (LooplyLIA ''LIA'') ''k'' ''v''))"
proof -
  have "classify (normalize_utterance env0 ''Learn my niche: fitness'') = LearnRemember"
    by code_simp
  with chat_leaves_memory [of env0 "snd (learn (LooplyLIA ''LIA'') ''k'' ''v'')"
      "''Learn my niche: fitness''"]
  show ?thesis
    by blast
qed

lemma greeting_keyword_survives_strip:
  assumes "str_in ''hello'' s \<or> str_in ''hi'' s \<or> str_in ''hey'' s"
  shows "occurs_any [''hello'', ''hi'', ''hey''] (str_strip s)"
proof -
  have "str_in ''hello'' s \<Longrightarrow> str_in ''hello'' (str_strip s)"
    by (rule str_strip_keeps_occurrence) (simp_all add: whitespace_def)
  moreover have "str_in ''hi'' s \<Longrightarrow> str_in ''hi'' (str_strip s)"
    by (rule str_strip_keeps_occurrence) (simp_all add: whitespace_def)
  moreover have "str_in ''hey'' s \<Longrightarrow> str_in ''hey'' (str_strip s)"
    by (rule str_strip_keeps_occurrence) (simp_all add: whitespace_def)
  ultimately show ?thesis
    using assms by (auto simp add: occurs_any_def)
qed

lemma greeted:
  assumes "str_in ''hello'' (str_lower e u) \<or> str_in ''hi'' (str_lower e u)
      \<or> str_in ''hey'' (str_lower e u)"
  shows "\<exists>g. g \<in> set greetings \<and> chat e self u = Inr (g, self)"
proof -
  from assms have "occurs_any [''hello'', ''hi'', ''hey''] (normalize_utterance e u)"
    unfolding normalize_utterance_def by (rule greeting_keyword_survives_strip)
  then have "classify (normalize_utterance e u) = Greeting"
    by (simp add: classify_def intent_keywords_def)
  then have "chat e self u = and_then (random_choice e greetings) (\<lambda>r. Inr (r, self))"
    by (simp add: chat_dispatch respond_def Let_def)
  moreover from random_choice_member [OF greetings_nonempty, of e] obtain g
    where "g \<in> set greetings" and "random_choice e greetings = Inr g"
    by blast
  ultimately show ?thesis
    by auto
qed

text \<open>
  Claim C7: when the lowercased utterance contains \<open>hello\<close>, \<open>hi\<close> or \<open>hey\<close>, \<open>chat\<close> returns one
  of the three greeting strings; for an ASCII utterance that is when it contains one of
  the three words in any mixture of capitals and small letters.
\<close>

theorem greeting_keywords_get_greeting:
  "(str_in ''hello'' (str_lower e u) \<or> str_in ''hi'' (str_lower e u)
      \<or> str_in ''hey'' (str_lower e u)
      \<longrightarrow> (\<exists>g. g \<in> set greetings \<and> chat e self u = Inr (g, self)))
   \<and> (list_all ascii u
        \<and> (str_in ''hello'' (map lower_char u) \<or> str_in ''hi'' (map lower_char u)
            \<or> str_in ''hey'' (map lower_char u))
      \<longrightarrow> (\<exists>g. g \<in> set greetings \<and> chat e self u = Inr (g, self)))
   \<and> length greetings = 3"
proof (intro conjI impI)
  assume "str_in ''hello'' (str_lower e u) \<or> str_in ''hi'' (str_lower e u)
      \<or> str_in ''hey'' (str_lower e u)"
  then show "\<exists>g. g \<in> set greetings \<and> chat e self u = Inr (g, self)"
    by (rule greeted)
next
  assume "list_all ascii u
        \<and> (str_in ''hello'' (map lower_char u) \<or> str_in ''hi'' (map lower_char u)
            \<or> str_in ''hey'' (map lower_char u))"
  then have "str_in ''hello'' (str_lower e u) \<or> str_in ''hi'' (str_lower e u)
      \<or> str_in ''hey'' (str_lower e u)"
    by (simp add: str_lower_ascii)
  then show "\<exists>g. g \<in> set greetings \<and> chat e self u = Inr (g, self)"
    by (rule greeted)
next
  show "length greetings = 3"
    by (simp add: greetings_def)
qed

text \<open>
  Claim C7 at \<open>WHICH way?\<close>, which contains \<open>HI\<close> inside a word, and at an utterance whose
  \<open>hi\<close> appears only when the capital I with dot above is lowercased.
\<close>

theorem greeting_keywords_get_greeting_witness:
  "list_all ascii '' WHICH way?  ''
   \<and> str_in ''hi'' (map lower_char '' WHICH way?  '')
   \<and> (\<exists>g. g \<in> set greetings
         \<and> chat env0 (LooplyLIA ''LIA'') '' WHICH way?  '' = Inr (g, LooplyLIA ''LIA''))
   \<and> str_in ''hi'' (str_lower env0 (''UPGRADE H'' @ [CHR 0xC4, CHR 0xB0]))
   \<and> (\<exists>g. g \<in> set greetings
         \<and> chat env0 (LooplyLIA ''LIA'') (''UPGRADE H'' @ [CHR 0xC4, CHR 0xB0])
             = Inr (g, LooplyLIA ''LIA''))"
proof -
  have ascii: "list_all ascii '' WHICH way?  ''"
    and hi: "str_in ''hi'' (map lower_char '' WHICH way?  '')"
    and dotted: "str_in ''hi'' (str_lower env0 (''UPGRADE H'' @ [CHR 0xC4, CHR 0xB0]))"
    by code_simp+
  from greeting_keywords_get_greeting [of env0 "'' WHICH way?  ''" "LooplyLIA ''LIA''"] ascii hi
  have "\<exists>g. g \<in> set greetings
         \<and> chat env0 (LooplyLIA ''LIA'') '' WHICH way?  '' = Inr (g, LooplyLIA ''LIA'')"
    by blast
  moreover
  from greeting_keywords_get_greeting [of env0 "''UPGRADE H'' @ [CHR 0xC4, CHR 0xB0]"
      "LooplyLIA ''LIA''"] dotted
  have "\<exists>g. g \<in> set greetings
         \<and> chat env0 (LooplyLIA ''LIA'') (''UPGRADE H'' @ [CHR 0xC4, CHR 0xB0])
             = Inr (g, LooplyLIA ''LIA'')"
    by blast
  ultimately show ?thesis
    using ascii hi dotted by blast
qed

text \<open>
  Claim C8: a call whose utterance reaches the upgrade predicate (its normalized form
  contains \<open>upgrade\<close> and no keyword of the ten predicates in front) adds one to the
  intelligence level and its reply spells the new level; a fresh responder has level 5,
  and a session of \<open>N\<close> such calls on it ends at level \<open>5 + N\<close>.
\<close>

theorem upgrade_increments_level:
  "(classify (normalize_utterance e u) = Upgrade \<longrightarrow>
      chat e self u
        = Inr ([CHR 0xF0, CHR 0x9F, CHR 0x9A, CHR 0x80] @ '' Intelligence upgraded to level '' @
               str_int (intelligence_level self + 1) @
               ''! I'm getting smarter about Looply content creation!'',
               self\<lparr>intelligence_level := intelligence_level self + 1\<rparr>))
   \<and> (list_all (\<lambda>call. classify (normalize_utterance (fst call) (snd call)) = Upgrade) calls \<longrightarrow>
        (\<exists>replies final. chats (LooplyLIA nm) calls = Inr (replies, final)
            \<and> intelligence_level final = 5 + int (length calls)))
   \<and> intelligence_level (LooplyLIA nm) = 5
   \<and> (classify t = Upgrade \<longleftrightarrow>
        str_in ''upgrade'' t
        \<and> \<not> occurs_any (concat (map snd (take 10 intent_keywords))) t)"
proof (intro conjI impI)
  assume "classify (normalize_utterance e u) = Upgrade"
  then show "chat e self u
        = Inr ([CHR 0xF0, CHR 0x9F, CHR 0x9A, CHR 0x80] @ '' Intelligence upgraded to level '' @
               str_int (intelligence_level self + 1) @
               ''! I'm getting smarter about Looply content creation!'',
               self\<lparr>intelligence_level := intelligence_level self + 1\<rparr>)"
    by (simp add: chat_dispatch respond_def Let_def)
next
  show fresh: "intelligence_level (LooplyLIA nm) = 5"
    by (simp add: LooplyLIA_def)
  show "classify t = Upgrade \<longleftrightarrow>
        str_in ''upgrade'' t
        \<and> \<not> occurs_any (concat (map snd (take 10 intent_keywords))) t"
    by (rule upgrade_reached_iff)
  assume "list_all (\<lambda>call. classify (normalize_utterance (fst call) (snd call)) = Upgrade) calls"
  from chats_upgrades [OF this, of "LooplyLIA nm"] fresh
  show "\<exists>replies final. chats (LooplyLIA nm) calls = Inr (replies, final)
            \<and> intelligence_level final = 5 + int (length calls)"
    by simp
qed

text \<open>
  Claim C8 for three upgrade requests on a fresh responder. An utterance that says
  \<open>UPGRADE\<close> and then \<open>H\<close> with the capital I with dot above is a greeting, not an upgrade.
\<close>

theorem upgrade_increments_level_witness:
  "classify (normalize_utterance env0 ''Upgrade your intelligence'') = Upgrade
   \<and> classify (normalize_utterance env0 ''please UPGRADE'') = Upgrade
   \<and> reply_of (chat env0 (LooplyLIA ''LIA'') ''Upgrade your intelligence'')
       = Inr ([CHR 0xF0, CHR 0x9F, CHR 0x9A, CHR 0x80] @
              '' Intelligence upgraded to level 6! I'm getting smarter about Looply content creation!'')
   \<and> (\<exists>replies final.
         chats (LooplyLIA ''LIA'')
           [(env0, ''Upgrade your intelligence''), (env0, ''please UPGRADE''),
            (env0, ''Upgrade your intelligence'')] = Inr (replies, final)
         \<and> intelligence_level final = 8)
   \<and> classify (normalize_utterance env0 (''UPGRADE H'' @ [CHR 0xC4, CHR 0xB0])) = Greeting"
proof -
  let ?calls = "[(env0, ''Upgrade your intelligence''), (env0, ''please UPGRADE''),
                 (env0, ''Upgrade your intelligence'')]"
  have one: "classify (normalize_utterance env0 ''Upgrade your intelligence'') = Upgrade"
    by code_simp
  have two: "classify (normalize_utterance env0 ''please UPGRADE'') = Upgrade"
    by code_simp
  have dotted: "classify (normalize_utterance env0 (''UPGRADE H'' @ [CHR 0xC4, CHR 0xB0])) = Greeting"
    by code_simp
  have six: "str_int (intelligence_level (LooplyLIA ''LIA'') + 1) = ''6''"
    by code_simp
  have all: "list_all (\<lambda>call. classify (normalize_utterance (fst call) (snd call)) = Upgrade) ?calls"
    using one two by simp
  note inst = upgrade_increments_level [where u = "''Upgrade your intelligence''" and e = env0
      and self = "LooplyLIA ''LIA''" and calls = ?calls and nm = "''LIA''"]
  from inst [THEN conjunct1] one
  have "chat env0 (LooplyLIA ''LIA'') ''Upgrade your intelligence''
        = Inr ([CHR 0xF0, CHR 0x9F, CHR 0x9A, CHR 0x80] @ '' Intelligence upgraded to level '' @
               str_int (intelligence_level (LooplyLIA ''LIA'') + 1) @
               ''! I'm getting smarter about Looply content creation!'',
               (LooplyLIA ''LIA'')\<lparr>intelligence_level := intelligence_level (LooplyLIA ''LIA'') + 1\<rparr>)"
    by (rule mp)
  then have reply: "reply_of (chat env0 (LooplyLIA ''LIA'') ''Upgrade your intelligence'')
       = Inr ([CHR 0xF0, CHR 0x9F, CHR 0x9A, CHR 0x80] @
              '' Intelligence upgraded to level 6! I'm getting smarter about Looply content creation!'')"
    by (simp add: six)
  from inst [THEN conjunct2, THEN conjunct1] all
  have "\<exists>replies final. chats (LooplyLIA ''LIA'') ?calls = Inr (replies, final)
            \<and> intelligence_level final = 5 + int (length ?calls)"
    by (rule mp)
  then have "\<exists>replies final. chats (LooplyLIA ''LIA'') ?calls = Inr (replies, final)
            \<and> intelligence_level final = 8"
    by simp
  with reply one two dotted show ?thesis
    by blast
qed

text \<open>
  Claim C9: for an utterance that does not reach the upgrade predicate, two responders that
  differ only in their intelligence level give the same reply, under the same draws,
  clock and case tables.
\<close>

theorem reply_independent_of_level:
  assumes "classify (normalize_utterance e u) \<noteq> Upgrade"
  shows "\<exists>reply. reply_of (chat e (self\<lparr>intelligence_level := a\<rparr>) u) = Inr reply
           \<and> reply_of (chat e (self\<lparr>intelligence_level := b\<rparr>) u) = Inr reply"
proof -
  from chat_result [of e "self\<lparr>intelligence_level := a\<rparr>" u] assms obtain reply
    where "chat e (self\<lparr>intelligence_level := a\<rparr>) u = Inr (reply, self\<lparr>intelligence_level := a\<rparr>)"
    by auto
  then have a: "reply_of (chat e (self\<lparr>intelligence_level := a\<rparr>) u) = Inr reply"
    by simp
  have "reply_of (chat e (self\<lparr>intelligence_level := a\<rparr>) u)
          = reply_of (chat e (self\<lparr>intelligence_level := b\<rparr>) u)"
    using intent_response_reply_frame [OF assms]
    by (simp add: chat_dispatch respond_def Let_def)
  with a show ?thesis
    by auto
qed

text \<open>Claim C9 with the levels 5 and 9, at an utterance that mentions \<open>upgrade\<close> but is a
  greeting, and at \<open>What TIME is it\<close>.\<close>

theorem reply_independent_of_level_witness:
  "classify (normalize_utterance env0 (''upgrade h'' @ [CHR 0xC4, CHR 0xB0])) \<noteq> Upgrade
   \<and> (\<exists>reply.
         reply_of (chat env0 ((LooplyLIA ''LIA'')\<lparr>intelligence_level := 5\<rparr>)
             (''upgrade h'' @ [CHR 0xC4, CHR 0xB0])) = Inr reply
         \<and> reply_of (chat env0 ((LooplyLIA ''LIA'')\<lparr>intelligence_level := 9\<rparr>)
             (''upgrade h'' @ [CHR 0xC4, CHR 0xB0])) = Inr reply)
   \<and> classify (normalize_utterance env0 ''What TIME is it'') \<noteq> Upgrade
   \<and> (\<exists>reply.
         reply_of (chat env0 ((LooplyLIA ''LIA'')\<lparr>intelligence_level := 5\<rparr>) ''What TIME is it'')
           = Inr reply
         \<and> reply_of (chat env0 ((LooplyLIA ''LIA'')\<lparr>intelligence_level := 9\<rparr>) ''What TIME is it'')
           = Inr reply)"
proof -
  have dotted: "classify (normalize_utterance env0 (''upgrade h'' @ [CHR 0xC4, CHR 0xB0])) \<noteq> Upgrade"
    by code_simp
  have time: "classify (normalize_utterance env0 ''What TIME is it'') \<noteq> Upgrade"
    by code_simp
  from dotted time
    reply_independent_of_level [where u = "''upgrade h'' @ [CHR 0xC4, CHR 0xB0]" and e = env0
      and self = "LooplyLIA ''LIA''" and a = 5 and b = 9]
    reply_independent_of_level [where u = "''What TIME is it''" and e = env0
      and self = "LooplyLIA ''LIA''" and a = 5 and b = 9]
  show ?thesis
    by blast
qed

end
